theory Spec2Isabelle
  imports Main "HOL-Library.Sublist" "HOL-Library.Multiset" "HOL-Library.Product_Lexorder"
begin

text \<open>
  The extraction core of the Media Download Utility API: the orchestrator
  \<open>extractVideo\<close> of \<open>extractvideo.ts\<close>, the handlers of \<open>/extract\<close> and \<open>/formats\<close> of
  \<open>mdu.ts\<close>, and the extractors of the YouTube and TikTok platform files, as functions
  of HOL. An exception is a value: a function that can throw returns a sum, with the
  message of the error on the left. The definitions come first, then what is proved of
  them.
\<close>

section \<open>Strings and numbers of the runtime\<close>

text \<open>
  A string of the program is a \<^typ>\<open>string\<close>: the bytes of its UTF-8 encoding. The
  functions of this section are the built-ins of the JavaScript runtime that the
  extraction code calls; they follow ECMAScript and the WHATWG URL and Encoding
  standards. A number is an unbounded integer or \<open>NaN\<close>; the rounding of integers
  beyond 2^53 and the sign of zero are left out.
\<close>

datatype number = NaN | Num int

text \<open>\<open>n || 0\<close> on a number: \<open>NaN\<close> and \<open>0\<close> are falsy.\<close>

fun or_zero :: "number \<Rightarrow> int" where
  "or_zero NaN = 0"
| "or_zero (Num n) = n"

text \<open>\<open>s || ''\<close> on a string that may be \<open>null\<close> or \<open>undefined\<close>.\<close>

fun or_empty :: "string option \<Rightarrow> string" where
  "or_empty None = []"
| "or_empty (Some s) = s"

text \<open>Truthiness of an optional string: \<open>undefined\<close> and the empty string are falsy.\<close>

fun truthy :: "string option \<Rightarrow> bool" where
  "truthy None = False"
| "truthy (Some s) = (s \<noteq> [])"

definition isDigit :: "char \<Rightarrow> bool" where
  "isDigit c = (c \<in> set ''0123456789'')"

definition digitVal :: "char \<Rightarrow> nat" where
  "digitVal c = of_char c - 48"

text \<open>The value of a string of decimal digits, most significant first.\<close>

definition decimal :: "string \<Rightarrow> nat" where
  "decimal ds = foldl (\<lambda>a c. 10 * a + digitVal c) 0 ds"

text \<open>The decimal numeral of a natural number, as a template literal prints it.\<close>

fun show_nat :: "nat \<Rightarrow> string" where
  "show_nat n =
     (if n < 10 then [''0123456789'' ! n]
      else show_nat (n div 10) @ [''0123456789'' ! (n mod 10)])"

definition startsWith :: "string \<Rightarrow> string \<Rightarrow> bool" where
  "startsWith s p = prefix p s"

text \<open>\<open>s.includes(sub)\<close>: \<open>sub\<close> occurs in \<open>s\<close> at some position.\<close>

fun includes_str :: "string \<Rightarrow> string \<Rightarrow> bool" where
  "includes_str [] sub = (sub = [])"
| "includes_str (c # cs) sub = (prefix sub (c # cs) \<or> includes_str cs sub)"

text \<open>\<open>toLowerCase\<close> on the ASCII letters; the other bytes are kept, so a letter
  outside ASCII is not folded.\<close>

definition lowerChar :: "char \<Rightarrow> char" where
  "lowerChar c =
     (if c \<in> set ''ABCDEFGHIJKLMNOPQRSTUVWXYZ''
      then ''abcdefghijklmnopqrstuvwxyz'' ! (of_char c - 65) else c)"

definition toLowerCase :: "string \<Rightarrow> string" where
  "toLowerCase s = map lowerChar s"

text \<open>
  \<open>s.split(sep)\<close> for a non-empty separator: the pieces between the non-overlapping
  occurrences of \<open>sep\<close>, found from the left. The result is never empty.
\<close>

function split :: "string \<Rightarrow> string \<Rightarrow> string list" where
  "split sep [] = [[]]"
| "split sep (c # cs) =
     (if sep \<noteq> [] \<and> prefix sep (c # cs) then [] # split sep (drop (length sep) (c # cs))
      else (case split sep cs of [] \<Rightarrow> [[c]] | p # ps \<Rightarrow> (c # p) # ps))"
  by pat_completeness auto
termination
  by (relation "measure (\<lambda>(sep, s). length s)") auto

declare split.simps [simp del]

text \<open>\<open>parts.join(sep)\<close>.\<close>

fun join :: "string \<Rightarrow> string list \<Rightarrow> string" where
  "join sep [] = []"
| "join sep [p] = p"
| "join sep (p # q # ps) = p @ sep @ join sep (q # ps)"

subsection \<open>UTF-8 and percent-encoding\<close>

text \<open>The three bytes of U+FFFD, the replacement character.\<close>

definition replacement :: string where
  "replacement = [CHR 0xEF, CHR 0xBF, CHR 0xBD]"

text \<open>
  The UTF-8 decoder of the Encoding standard with replacement, on bytes: a well-formed
  sequence is kept, every ill-formed one becomes U+FFFD. \<open>pend\<close> holds the bytes of
  the sequence being read, \<open>need\<close> the number of continuation bytes still expected and
  \<open>lo\<close>, \<open>hi\<close> the range allowed for the next one. A byte outside the range is read
  again as the start of a sequence.
\<close>

fun utf8_run :: "string \<Rightarrow> nat \<Rightarrow> nat \<Rightarrow> nat \<Rightarrow> string \<Rightarrow> string" where
  "utf8_run pend need lo hi [] = (if need = 0 then [] else replacement)"
| "utf8_run pend need lo hi (c # cs) =
     (let b = (of_char c :: nat) in
      if need = 0 then
        (if b < 0x80 then c # utf8_run [] 0 0x80 0xBF cs
         else if 0xC2 \<le> b \<and> b \<le> 0xDF then utf8_run [c] 1 0x80 0xBF cs
         else if 0xE0 \<le> b \<and> b \<le> 0xEF then
           utf8_run [c] 2 (if b = 0xE0 then 0xA0 else 0x80) (if b = 0xED then 0x9F else 0xBF) cs
         else if 0xF0 \<le> b \<and> b \<le> 0xF4 then
           utf8_run [c] 3 (if b = 0xF0 then 0x90 else 0x80) (if b = 0xF4 then 0x8F else 0xBF) cs
         else replacement @ utf8_run [] 0 0x80 0xBF cs)
      else if b < lo \<or> hi < b then replacement @ utf8_run [] 0 0x80 0xBF (c # cs)
      else if need = 1 then pend @ [c] @ utf8_run [] 0 0x80 0xBF cs
      else utf8_run (pend @ [c]) (need - 1) 0x80 0xBF cs)"

definition utf8_decode :: "string \<Rightarrow> string" where
  "utf8_decode s = utf8_run [] 0 0x80 0xBF s"

text \<open>A string is well formed when decoding leaves it as it is.\<close>

definition wellFormed :: "string \<Rightarrow> bool" where
  "wellFormed s = (utf8_decode s = s)"

definition hexVal :: "char \<Rightarrow> nat option" where
  "hexVal c =
     (if isDigit c then Some (of_char c - 48)
      else if c \<in> set ''abcdef'' then Some (of_char c - 87)
      else if c \<in> set ''ABCDEF'' then Some (of_char c - 55)
      else None)"

text \<open>The byte that two hexadecimal digits name, if they are hexadecimal digits.\<close>

definition hexOctet :: "char \<Rightarrow> char \<Rightarrow> char option" where
  "hexOctet h l =
     (case (hexVal h, hexVal l) of
        (Some a, Some b) \<Rightarrow> Some (char_of (16 * a + b))
      | _ \<Rightarrow> None)"

text \<open>Percent-decoding of the URL standard: an escape that is not \<open>%XX\<close> is kept.\<close>

fun percent_decode :: "string \<Rightarrow> string" where
  "percent_decode [] = []"
| "percent_decode [c] = [c]"
| "percent_decode [c, d] = [c, d]"
| "percent_decode (c # h # l # cs) =
     (if c = CHR ''%'' then
        (case hexOctet h l of
           Some b \<Rightarrow> b # percent_decode cs
         | None \<Rightarrow> c # percent_decode (h # l # cs))
      else c # percent_decode (h # l # cs))"

text \<open>
  The parser of \<open>application/x-www-form-urlencoded\<close>, which \<open>new URLSearchParams(init)\<close>
  runs on a string: one leading \<open>?\<close> is dropped, the rest is cut at every \<open>&\<close>, each
  non-empty piece at its first \<open>=\<close>; in the name and in the value \<open>+\<close> becomes a space,
  then the percent-escapes are decoded and the bytes read as UTF-8.
\<close>

definition form_decode :: "string \<Rightarrow> string" where
  "form_decode s =
     utf8_decode (percent_decode (map (\<lambda>c. if c = CHR ''+'' then CHR '' '' else c) s))"

definition form_pair :: "string \<Rightarrow> string \<times> string" where
  "form_pair p =
     (form_decode (takeWhile (\<lambda>c. c \<noteq> CHR ''='') p),
      form_decode (drop 1 (dropWhile (\<lambda>c. c \<noteq> CHR ''='') p)))"

definition URLSearchParams :: "string \<Rightarrow> (string \<times> string) list" where
  "URLSearchParams init =
     map form_pair
       (filter (\<lambda>p. p \<noteq> [])
          (split ''&'' (if startsWith init ''?'' then drop 1 init else init)))"

text \<open>\<open>params.get(name)\<close>: the value of the first pair with that name, or \<open>null\<close>.\<close>

definition params_get :: "(string \<times> string) list \<Rightarrow> string \<Rightarrow> string option" where
  "params_get ps name = map_of ps name"

datatype error = URIError | TypeError

text \<open>
  \<open>decodeURIComponent\<close>: every \<open>%XX\<close> is decoded; an escape that is not two
  hexadecimal digits, or escaped bytes that are not the UTF-8 encoding of one code
  point, raise \<open>URIError\<close>. \<open>escapes n s\<close> reads \<open>n\<close> escapes from the head of \<open>s\<close>.
\<close>

fun escapes :: "nat \<Rightarrow> string \<Rightarrow> (string \<times> string) option" where
  "escapes 0 s = Some ([], s)"
| "escapes (Suc n) (c # h # l # cs) =
     (if c = CHR ''%'' then
        (case hexOctet h l of
           None \<Rightarrow> None
         | Some b \<Rightarrow>
             (case escapes n cs of
                None \<Rightarrow> None
              | Some (bs, rest) \<Rightarrow> Some (b # bs, rest)))
      else None)"
| "escapes (Suc n) s = None"

text \<open>The length of the sequence that a leading byte announces: its leading one bits.\<close>

definition leadingOnes :: "nat \<Rightarrow> nat" where
  "leadingOnes b =
     (if b < 0x80 then 0 else if b < 0xC0 then 1 else if b < 0xE0 then 2
      else if b < 0xF0 then 3 else if b < 0xF8 then 4 else 5)"

function decodeURIComponent :: "string \<Rightarrow> error + string" where
  "decodeURIComponent [] = Inr []"
| "decodeURIComponent (c # cs) =
     (if c \<noteq> CHR ''%'' then
        (case decodeURIComponent cs of Inl e \<Rightarrow> Inl e | Inr r \<Rightarrow> Inr (c # r))
      else
        (case escapes 1 (c # cs) of
           None \<Rightarrow> Inl URIError
         | Some (b, _) \<Rightarrow>
             (let n = leadingOnes (of_char (hd b)) in
              if n = 1 \<or> 4 < n then Inl URIError
              else
                (case escapes (max 1 n) (c # cs) of
                   None \<Rightarrow> Inl URIError
                 | Some (octets, rest) \<Rightarrow>
                     if utf8_decode octets \<noteq> octets then Inl URIError
                     else
                       (case decodeURIComponent (drop (3 * max 1 n - 1) cs) of
                          Inl e \<Rightarrow> Inl e
                        | Inr r \<Rightarrow> Inr (octets @ r))))))"
  by pat_completeness auto
termination
  by (relation "measure length") auto

text \<open>
  \<open>encodeURIComponent\<close>: the letters, the digits and \<open>- _ . ! ~ * ' ( )\<close> are kept,
  every other byte of the UTF-8 encoding becomes \<open>%XX\<close> in upper case.
\<close>

definition unreserved :: "char \<Rightarrow> bool" where
  "unreserved c =
     (c \<in> set ''ABCDEFGHIJKLMNOPQRSTUVWXYZabcdefghijklmnopqrstuvwxyz0123456789-_.!~*()''
      \<or> c = CHR 0x27)"

definition hexDigit :: "nat \<Rightarrow> char" where
  "hexDigit n = ''0123456789ABCDEF'' ! n"

definition encodeChar :: "char \<Rightarrow> string" where
  "encodeChar c =
     (if unreserved c then [c]
      else [CHR ''%'', hexDigit (of_char c div 16), hexDigit (of_char c mod 16)])"

definition encodeURIComponent :: "string \<Rightarrow> string" where
  "encodeURIComponent s = concat (map encodeChar s)"

subsection \<open>parseInt and trim\<close>

text \<open>The white space that \<open>parseInt\<close> and \<open>trim\<close> skip, each character by the bytes of
  its UTF-8 encoding: the ASCII ones, U+00A0, U+1680, U+2000 to U+200A, U+2028, U+2029,
  U+202F, U+205F, U+3000 and U+FEFF.\<close>

definition whiteSpaces :: "string list" where
  "whiteSpaces =
     [[CHR 0x09], [CHR 0x0A], [CHR 0x0B], [CHR 0x0C], [CHR 0x0D], [CHR 0x20],
      [CHR 0xC2, CHR 0xA0], [CHR 0xE1, CHR 0x9A, CHR 0x80],
      [CHR 0xE2, CHR 0x80, CHR 0x80], [CHR 0xE2, CHR 0x80, CHR 0x81],
      [CHR 0xE2, CHR 0x80, CHR 0x82], [CHR 0xE2, CHR 0x80, CHR 0x83],
      [CHR 0xE2, CHR 0x80, CHR 0x84], [CHR 0xE2, CHR 0x80, CHR 0x85],
      [CHR 0xE2, CHR 0x80, CHR 0x86], [CHR 0xE2, CHR 0x80, CHR 0x87],
      [CHR 0xE2, CHR 0x80, CHR 0x88], [CHR 0xE2, CHR 0x80, CHR 0x89],
      [CHR 0xE2, CHR 0x80, CHR 0x8A], [CHR 0xE2, CHR 0x80, CHR 0xA8],
      [CHR 0xE2, CHR 0x80, CHR 0xA9], [CHR 0xE2, CHR 0x80, CHR 0xAF],
      [CHR 0xE2, CHR 0x81, CHR 0x9F], [CHR 0xE3, CHR 0x80, CHR 0x80],
      [CHR 0xEF, CHR 0xBB, CHR 0xBF]]"

text \<open>The number of bytes of the first of \<open>ws\<close> that \<open>s\<close> starts with, \<open>0\<close> if none.\<close>

definition headLength :: "string list \<Rightarrow> string \<Rightarrow> nat" where
  "headLength ws s = (case find (\<lambda>w. w \<noteq> [] \<and> prefix w s) ws of None \<Rightarrow> 0 | Some w \<Rightarrow> length w)"

function dropAll :: "string list \<Rightarrow> string \<Rightarrow> string" where
  "dropAll ws s = (if headLength ws s = 0 then s else dropAll ws (drop (headLength ws s) s))"
  by pat_completeness auto
termination
proof (relation "measure (\<lambda>(ws, s). length s)")
  show "wf (measure (\<lambda>(ws, s). length s))"
    by simp
next
  fix ws :: "string list" and s :: string
  assume a: "headLength ws s \<noteq> 0"
  then obtain w where "find (\<lambda>w. w \<noteq> [] \<and> prefix w s) ws = Some w"
    by (auto simp: headLength_def split: option.splits)
  then have "w \<noteq> [] \<and> prefix w s"
    by (auto simp: find_Some_iff)
  then have "s \<noteq> []"
    by auto
  with a show "((ws, drop (headLength ws s) s), (ws, s)) \<in> measure (\<lambda>(ws, s). length s)"
    by simp
qed

declare dropAll.simps [simp del]

definition trimStart :: "string \<Rightarrow> string" where
  "trimStart s = dropAll whiteSpaces s"

definition trimEnd :: "string \<Rightarrow> string" where
  "trimEnd s = rev (dropAll (map rev whiteSpaces) (rev s))"

definition trim :: "string \<Rightarrow> string" where
  "trim s = trimEnd (trimStart s)"

definition hexadecimal :: "string \<Rightarrow> nat" where
  "hexadecimal ds = foldl (\<lambda>a c. 16 * a + (case hexVal c of Some v \<Rightarrow> v | None \<Rightarrow> 0)) 0 ds"

text \<open>
  \<open>parseInt\<close>: white space is skipped, then a sign, then, when no radix is given, a
  prefix \<open>0x\<close> or \<open>0X\<close>; the digits up to the first character that is none are read, and
  there being none the result is \<open>NaN\<close>. \<open>parseIntBase True\<close> is \<open>parseInt(s)\<close> and
  \<open>parseIntBase False\<close> is \<open>parseInt(s, 10)\<close>.
\<close>

definition parseIntBase :: "bool \<Rightarrow> string \<Rightarrow> number" where
  "parseIntBase stripPrefix str =
     (let s = trimStart str;
          negative = startsWith s ''-'';
          s = (if startsWith s ''-'' \<or> startsWith s ''+'' then drop 1 s else s);
          hex = (stripPrefix \<and> (startsWith s ''0x'' \<or> startsWith s ''0X''));
          s = (if hex then drop 2 s else s);
          z = takeWhile (\<lambda>c. if hex then hexVal c \<noteq> None else isDigit c) s
      in if z = [] then NaN
         else Num ((if negative then - 1 else 1)
                     * int (if hex then hexadecimal z else decimal z)))"

definition parseInt :: "string \<Rightarrow> number" where
  "parseInt s = parseIntBase True s"

subsection \<open>Sorting\<close>

text \<open>
  \<open>Array.prototype.sort\<close> with a comparator. The sort is stable, and for a consistent
  comparator its result is determined: the elements in the order of the comparator,
  equal ones in their order of entry. The model inserts each element before the first
  one it does not come after. For a comparator that is not consistent ECMAScript leaves
  the order to the engine; of such a sort only that it permutes the list is used below.
\<close>

fun insort_cmp :: "('a \<Rightarrow> 'a \<Rightarrow> int) \<Rightarrow> 'a \<Rightarrow> 'a list \<Rightarrow> 'a list" where
  "insort_cmp cmp x [] = [x]"
| "insort_cmp cmp x (y # ys) = (if cmp x y \<le> 0 then x # y # ys else y # insort_cmp cmp x ys)"

definition js_sort :: "('a \<Rightarrow> 'a \<Rightarrow> int) \<Rightarrow> 'a list \<Rightarrow> 'a list" where
  "js_sort cmp xs = foldr (insort_cmp cmp) xs []"

section \<open>The data model\<close>

text \<open>
  \<open>VideoFormat\<close> and \<open>VideoMetadata\<close> of \<open>extractvideo.ts\<close>. The field \<open>size\<close> is named
  \<open>size_bytes\<close> here. \<open>VideoInfo\<close> and \<open>TikTokVideoInfo\<close> of the platform files have the
  fields of \<open>VideoMetadata\<close> but \<open>downloadUrl\<close> and are the same record, with
  \<open>downloadUrl\<close> absent.
\<close>

datatype media = Audio | Video

record VideoFormat =
  quality :: string
  format :: string
  mimeType :: string
  type :: media
  size_bytes :: number
  url :: string

record VideoMetadata =
  title :: string
  description :: string
  duration :: number
  thumbnail :: string
  formats :: "VideoFormat list"
  downloadUrl :: "string option"

text \<open>
  A property of a request object: absent, present with the value \<open>undefined\<close>, or present
  with a value. \<open>VideoExtractRequest\<close>: the fields carry the prefix \<open>r_\<close>; \<open>r_url\<close> is
  \<open>None\<close> when the url is missing.
\<close>

datatype 'a field = Absent | Undefined | Val 'a

record VideoExtractRequest =
  r_url :: "string option"
  r_format :: "string field"
  r_quality :: "string field"
  r_download :: "bool field"
  r_info :: "bool field"
  r_type :: "media field"

text \<open>Reading a property, \<open>request.format\<close>: \<open>undefined\<close> unless it holds a value.\<close>

fun read_field :: "'a field \<Rightarrow> 'a option" where
  "read_field (Val v) = Some v"
| "read_field Absent = None"
| "read_field Undefined = None"

text \<open>
  The spread \<open>{ key: dflt, ...request }\<close>, for one key: an own property of the request
  replaces the default, whatever its value.
\<close>

fun spread :: "'a \<Rightarrow> 'a field \<Rightarrow> 'a option" where
  "spread dflt Absent = Some dflt"
| "spread dflt Undefined = None"
| "spread dflt (Val v) = Some v"

text \<open>The object \<open>params\<close> of \<open>extractVideo\<close>; the fields carry the prefix \<open>p_\<close>.\<close>

record Params =
  p_url :: string
  p_format :: "string option"
  p_quality :: "string option"
  p_download :: "bool option"
  p_info :: "bool option"
  p_type :: "media option"

definition string_or :: "string option \<Rightarrow> string \<Rightarrow> string" where
  "string_or v dflt = (if truthy v then or_empty v else dflt)"

definition setDefaults :: "VideoExtractRequest \<Rightarrow> string \<Rightarrow> Params" where
  "setDefaults request u =
     \<lparr> p_url = u,
       p_format = spread (string_or (read_field (r_format request)) ''mp4'') (r_format request),
       p_quality =
         spread (string_or (read_field (r_quality request)) ''highest'') (r_quality request),
       p_download = spread (read_field (r_download request) = Some True) (r_download request),
       p_info = spread (read_field (r_info request) = Some True) (r_info request),
       p_type =
         spread (case read_field (r_type request) of Some t \<Rightarrow> t | None \<Rightarrow> Video)
           (r_type request) \<rparr>"

section \<open>The orchestrator: extractVideo\<close>

text \<open>
  What \<open>extractvideo.ts\<close> and the handlers of \<open>mdu.ts\<close> import from \<open>./processor/platform\<close>.
  \<open>detectPlatform\<close> and \<open>isPlatform\<close> are not among the sources: the detector and
  the list of names that \<open>getSupportedPlatforms\<close> builds from \<open>isPlatform\<close> are taken as
  given. The extractors are fields too, so that \<open>extractVideo\<close> is stated for every
  implementation of them; \<open>platformModule\<close> below builds the module of the sources.
\<close>

datatype platform = YouTube | TikTok | Unknown

record PlatformModule =
  detectPlatform :: "string \<Rightarrow> platform"
  supportedPlatforms :: string
  youtubeExtract :: "string \<Rightarrow> string option \<Rightarrow> string option \<Rightarrow> string + VideoMetadata"
  tiktokExtract :: "string \<Rightarrow> string + VideoMetadata"
  youtubeList :: "string \<Rightarrow> string + VideoFormat list"
  youtubeByType :: "string \<Rightarrow> media \<Rightarrow> string + VideoFormat list"
  tiktokList :: "string \<Rightarrow> string + VideoFormat list"

text \<open>A failure is the message of the \<open>Error\<close> thrown; \<open>andThen\<close> runs the next step.\<close>

fun andThen :: "string + 'a \<Rightarrow> ('a \<Rightarrow> string + 'b) \<Rightarrow> string + 'b" where
  "andThen (Inl e) f = Inl e"
| "andThen (Inr x) f = f x"

text \<open>\<open>catch (error) { throw new Error(prefix + error.message) }\<close>.\<close>

fun rethrow :: "string \<Rightarrow> string + 'a \<Rightarrow> string + 'a" where
  "rethrow pre (Inl e) = Inl (pre @ e)"
| "rethrow pre (Inr x) = Inr x"

definition mediaName :: "media \<Rightarrow> string" where
  "mediaName t = (case t of Audio \<Rightarrow> ''audio'' | Video \<Rightarrow> ''video'')"

text \<open>The format filter and the quality filter, written twice in the source, once for
  each platform, with the same text.\<close>

definition filterFormat :: "Params \<Rightarrow> VideoMetadata \<Rightarrow> string + VideoMetadata" where
  "filterFormat params result =
     (if truthy (p_format params) then
        (let fs = filter (\<lambda>f. toLowerCase (format f) = toLowerCase (or_empty (p_format params)))
                    (formats result)
         in if fs = [] then
              Inl (''No formats matching '' @ [CHR 0x27] @ or_empty (p_format params)
                     @ [CHR 0x27] @ '' found'')
            else Inr (result\<lparr>formats := fs\<rparr>))
      else Inr result)"

definition filterQuality :: "Params \<Rightarrow> VideoMetadata \<Rightarrow> string + VideoMetadata" where
  "filterQuality params result =
     (if truthy (p_quality params) \<and> p_quality params \<noteq> Some ''highest'' then
        (let fs = filter (\<lambda>f. includes_str (toLowerCase (quality f))
                                (toLowerCase (or_empty (p_quality params))))
                    (formats result)
         in if fs = [] then
              Inl (''No quality matching '' @ [CHR 0x27] @ or_empty (p_quality params)
                     @ [CHR 0x27] @ '' found'')
            else Inr (result\<lparr>formats := fs\<rparr>))
      else Inr result)"

text \<open>
  \<open>quality.match(/(\d+)p/)\<close>: the first group of the leftmost match, a longest run of
  digits that a \<open>p\<close> follows.
\<close>

fun matchDigitsP :: "string \<Rightarrow> string option" where
  "matchDigitsP [] = None"
| "matchDigitsP (c # cs) =
     (if takeWhile isDigit (c # cs) \<noteq> [] \<and> startsWith (dropWhile isDigit (c # cs)) ''p''
      then Some (takeWhile isDigit (c # cs))
      else matchDigitsP cs)"

definition getQualityNumber :: "string \<Rightarrow> int" where
  "getQualityNumber q = (case matchDigitsP q of Some ds \<Rightarrow> int (decimal ds) | None \<Rightarrow> 0)"

definition byResolution :: "VideoFormat \<Rightarrow> VideoFormat \<Rightarrow> int" where
  "byResolution a b = getQualityNumber (quality b) - getQualityNumber (quality a)"

definition noWatermark :: "VideoFormat \<Rightarrow> bool" where
  "noWatermark f = includes_str (quality f) ''no watermark''"

definition byWatermarkThenSize :: "VideoFormat \<Rightarrow> VideoFormat \<Rightarrow> int" where
  "byWatermarkThenSize a b =
     (if noWatermark a \<and> \<not> noWatermark b then - 1
      else if \<not> noWatermark a \<and> noWatermark b then 1
      else or_zero (size_bytes b) - or_zero (size_bytes a))"

definition sortHighest ::
  "(VideoFormat \<Rightarrow> VideoFormat \<Rightarrow> int) \<Rightarrow> Params \<Rightarrow> VideoMetadata \<Rightarrow> VideoMetadata" where
  "sortHighest cmp params result =
     (if p_quality params = Some ''highest''
      then result\<lparr>formats := js_sort cmp (formats result)\<rparr> else result)"

text \<open>The \<open>switch\<close> on the platform.\<close>

definition extractPlatform :: "PlatformModule \<Rightarrow> Params \<Rightarrow> string + VideoMetadata" where
  "extractPlatform P params =
     (case detectPlatform P (p_url params) of
        YouTube \<Rightarrow>
          andThen (youtubeExtract P (p_url params) (p_format params) (p_quality params))
            (\<lambda>result. andThen (filterFormat params result)
            (\<lambda>result. andThen (filterQuality params result)
            (\<lambda>result. Inr (sortHighest byResolution params result))))
      | TikTok \<Rightarrow>
          andThen (tiktokExtract P (p_url params))
            (\<lambda>result. andThen (filterFormat params result)
            (\<lambda>result. andThen (filterQuality params result)
            (\<lambda>result. Inr (sortHighest byWatermarkThenSize params result))))
      | Unknown \<Rightarrow>
          Inl (''Unsupported platform. Currently supports: '' @ supportedPlatforms P))"

definition filterType :: "Params \<Rightarrow> VideoMetadata \<Rightarrow> string + VideoMetadata" where
  "filterType params result =
     (case p_type params of
        None \<Rightarrow> Inr result
      | Some t \<Rightarrow>
          (let fs = filter (\<lambda>f. type f = t) (formats result)
           in if fs = [] then Inl (''No '' @ mediaName t @ '' formats found'')
              else Inr (result\<lparr>formats := fs\<rparr>)))"

definition removeWithoutUrls :: "VideoMetadata \<Rightarrow> string + VideoMetadata" where
  "removeWithoutUrls result =
     (let fs = filter (\<lambda>f. url f \<noteq> []) (formats result)
      in if fs = [] then Inl ''No valid formats found with URLs''
         else Inr (result\<lparr>formats := fs\<rparr>))"

text \<open>\<open>result.formats[0].url\<close> on an empty list would raise a \<open>TypeError\<close>.\<close>

definition setDownloadUrl :: "Params \<Rightarrow> VideoMetadata \<Rightarrow> string + VideoMetadata" where
  "setDownloadUrl params result =
     (if p_download params = Some True then
        (case formats result of
           [] \<Rightarrow> Inl ''undefined is not an object''
         | f # _ \<Rightarrow> Inr (result\<lparr>downloadUrl := Some (url f)\<rparr>))
      else Inr result)"

definition infoOnly :: "Params \<Rightarrow> VideoMetadata \<Rightarrow> VideoMetadata" where
  "infoOnly params result =
     (if p_info params = Some True then result\<lparr>formats := [], downloadUrl := None\<rparr>
      else result)"

text \<open>The body of the \<open>try\<close> block, and \<open>extractVideo\<close>.\<close>

definition extractVideo_try :: "PlatformModule \<Rightarrow> Params \<Rightarrow> string + VideoMetadata" where
  "extractVideo_try P params =
     andThen (extractPlatform P params)
       (\<lambda>result. andThen (filterType params result)
       (\<lambda>result. andThen (removeWithoutUrls result)
       (\<lambda>result. andThen (setDownloadUrl params result)
       (\<lambda>result. Inr (infoOnly params result)))))"

definition extractVideo :: "PlatformModule \<Rightarrow> VideoExtractRequest \<Rightarrow> string + VideoMetadata" where
  "extractVideo P request =
     (if \<not> truthy (r_url request) then Inl ''URL is required''
      else rethrow ''Error extracting video: ''
             (extractVideo_try P (setDefaults request (or_empty (r_url request)))))"

section \<open>The handlers of the API\<close>

text \<open>The query of \<open>GET /extract\<close> and of \<open>GET /formats\<close>: every parameter is a string
  or absent, \<open>type\<close> one of the two literals.\<close>

record Query =
  q_url :: "string option"
  q_format :: "string option"
  q_quality :: "string option"
  q_download :: "string option"
  q_info :: "string option"
  q_type :: "media option"

text \<open>\<open>key: query.key?.toString()\<close>: the key is always a property of the request.\<close>

fun passed :: "'a option \<Rightarrow> 'a field" where
  "passed None = Undefined"
| "passed (Some v) = Val v"

definition requestOfQuery :: "Query \<Rightarrow> VideoExtractRequest" where
  "requestOfQuery query =
     \<lparr> r_url = q_url query,
       r_format = passed (q_format query),
       r_quality = passed (q_quality query),
       r_download = Val (q_download query = Some ''true''),
       r_info = Val (q_info query = Some ''true''),
       r_type = passed (q_type query) \<rparr>"

definition extractHandler :: "PlatformModule \<Rightarrow> Query \<Rightarrow> string + VideoMetadata" where
  "extractHandler P query =
     (if \<not> truthy (q_url query) then Inl ''URL is required''
      else rethrow ''Extraction failed: '' (extractVideo P (requestOfQuery query)))"

definition formatsHandler ::
  "PlatformModule \<Rightarrow> Query \<Rightarrow> string + platform \<times> VideoFormat list" where
  "formatsHandler P query =
     (if \<not> truthy (q_url query) then Inl ''URL is required''
      else rethrow ''Failed to list formats: ''
        (let u = or_empty (q_url query); platform = detectPlatform P u
         in andThen
              (case platform of
                 TikTok \<Rightarrow> tiktokList P u
               | YouTube \<Rightarrow>
                   (case q_type query of
                      Some t \<Rightarrow> youtubeByType P u t
                    | None \<Rightarrow> youtubeList P u)
               | Unknown \<Rightarrow> Inl ''Unsupported platform'')
              (\<lambda>fs. let validFormats = filter (\<lambda>f. url f \<noteq> []) fs
                    in if validFormats = [] then Inl ''No valid formats found with URLs''
                       else Inr (platform, validFormats))))"

section \<open>The world outside the program\<close>

text \<open>
  A stream of the player response, as \<open>extractFormatsFromPlayerResponse\<close> reads it:
  its \<open>url\<close>, \<open>signatureCipher\<close>, \<open>mimeType\<close>, \<open>qualityLabel\<close>, \<open>quality\<close> and
  \<open>contentLength\<close>, each a string where it is present; \<open>quality\<close>, which every stream
  carries, always is. The fields carry the prefix \<open>s_\<close>. The list \<open>formats\<close> of the
  streaming data is named \<open>regularFormats\<close>, as the variable that holds it.
\<close>

record StreamFormat =
  s_url :: "string option"
  s_signatureCipher :: "string option"
  s_mimeType :: "string option"
  s_qualityLabel :: "string option"
  s_quality :: string
  s_contentLength :: "string option"

record StreamingData =
  adaptiveFormats :: "StreamFormat list option"
  regularFormats :: "StreamFormat list option"

record PlayerResponse =
  streamingData :: "StreamingData option"
  lengthSeconds :: "string option"

text \<open>
  The answer to a \<open>fetch\<close>: the promise is rejected with a message, or there is a
  response with a status and a body, which may fail to be read. Each call of \<open>fetch\<close>
  in the sources sends its own headers and reads the body in its own way, so the
  network has one function for each call, and a body is what the code reads from it.
\<close>

datatype 'a body = Unreadable string | Body 'a

datatype 'a response = Rejected string | Response nat "'a body"

definition ok :: "nat \<Rightarrow> bool" where
  "ok status = (200 \<le> status \<and> status \<le> 299)"

text \<open>What \<open>fetchVideoInfo\<close> looks up in the watch page: four \<open>meta\<close> contents and the
  object \<open>ytInitialPlayerResponse\<close>, the empty object when the page has none that
  parses.\<close>

record YouTubePage =
  metaTitle :: "string option"
  ogTitle :: "string option"
  metaDescription :: "string option"
  ogDescription :: "string option"
  ytInitialPlayerResponse :: PlayerResponse

text \<open>
  The world outside the program. \<open>matchVideoId\<close> is the first group of the regular
  expression of \<open>extractVideoId\<close> on a url, \<open>None\<close> where it does not match. \<open>parseURL\<close>
  is \<open>new URL(s)\<close>, \<open>None\<close> where it throws; of a \<open>URL\<close> object the code reads
  \<open>hostname\<close> and \<open>search\<close>, and \<open>withSearch u s\<close> is the string of \<open>u\<close> once its \<open>search\<close>
  is set to \<open>s\<close>. \<open>fetchHead\<close> is the \<open>HEAD\<close> request of \<open>sanitizeTikTokUrl\<close>: the url of
  the response, \<open>None\<close> when the promise is rejected. The other functions are the
  \<open>GET\<close> requests of \<open>fetchVideoInfo\<close>, \<open>fetchTikTokInfo\<close>, \<open>extractFromEmbed\<close> and
  \<open>extractFromApi\<close>.
\<close>

record URL =
  hostname :: string
  search :: string
  withSearch :: "string \<Rightarrow> string"

text \<open>
  The object \<open>videoData\<close> of the TikTok page, as the code reads it: the strings under
  \<open>name\<close>, \<open>description\<close>, \<open>duration\<close>, \<open>thumbnailUrl\<close> and \<open>videoUrl\<close>, the object
  \<open>video\<close> with its \<open>playAddr\<close>, \<open>downloadAddr\<close> and \<open>playUrl\<close>, and whether it has any
  other key. The fields carry the prefix \<open>vd_\<close>.
\<close>

record VideoAddrs =
  playAddr :: "string option"
  downloadAddr :: "string option"
  playUrl :: "string option"

record VideoData =
  vd_name :: "string option"
  vd_description :: "string option"
  vd_duration :: "string option"
  vd_thumbnailUrl :: "string option"
  vd_videoUrl :: "string option"
  vd_video :: "VideoAddrs option"
  vd_otherKeys :: bool

definition emptyData :: VideoData where
  "emptyData =
     \<lparr> vd_name = None, vd_description = None, vd_duration = None, vd_thumbnailUrl = None,
       vd_videoUrl = None, vd_video = None, vd_otherKeys = False \<rparr>"

text \<open>\<open>Object.keys(videoData).length === 0\<close>.\<close>

definition noKeys :: "VideoData \<Rightarrow> bool" where
  "noKeys d =
     (vd_name d = None \<and> vd_description d = None \<and> vd_duration d = None
      \<and> vd_thumbnailUrl d = None \<and> vd_videoUrl d = None \<and> vd_video d = None
      \<and> \<not> vd_otherKeys d)"

text \<open>
  What the code looks up in the TikTok page. Of each of the three scripts: \<open>None\<close> when
  the page has none or an empty one, \<open>Unparsable\<close> when \<open>JSON.parse\<close> or the walk to the
  data throws, else the data; for the second and the third script the data is
  \<open>None\<close> where the walk ends at nothing. \<open>videoSrcs\<close> are the \<open>src\<close> attributes of the
  \<open>video\<close> elements that have one; the rest are the contents of \<open>meta\<close> elements and
  the text of \<open>title\<close>.
\<close>

datatype 'a parsed = Unparsable | Parsed 'a

record TikTokPage =
  jsonLd :: "VideoData parsed option"
  nextData :: "VideoData option parsed option"
  sigiState :: "VideoData option parsed option"
  videoSrcs :: "string list"
  ogVideo :: "string option"
  ogVideoUrl :: "string option"
  ogTitlePage :: "string option"
  titleText :: string
  ogDescriptionPage :: "string option"
  metaDescriptionPage :: "string option"
  videoDuration :: "string option"
  ogImage :: "string option"

text \<open>The first entry of \<open>aweme_list\<close> in the answer of the API: the first url of its
  \<open>play_addr\<close> and of its \<open>download_addr\<close>.\<close>

record Aweme =
  play_addr :: "string option"
  download_addr :: "string option"

record World =
  matchVideoId :: "string \<Rightarrow> string option"
  fetchWatchPage :: "string \<Rightarrow> YouTubePage response"
  fetchHead :: "string \<Rightarrow> string option"
  parseURL :: "string \<Rightarrow> URL option"
  fetchPage :: "string \<Rightarrow> TikTokPage response"
  fetchEmbed :: "string \<Rightarrow> string list response"
  fetchApi :: "string \<Rightarrow> Aweme option response"

text \<open>The body that \<open>fetch\<close> and \<open>response.text()\<close> or \<open>response.json()\<close> give, or the
  message of the exception: of a rejected promise, of a status that is not 2xx where
  the code checks it, of a body that cannot be read.\<close>

definition bodyOrThrow :: "'a response \<Rightarrow> string + 'a" where
  "bodyOrThrow r =
     (case r of
        Rejected m \<Rightarrow> Inl m
      | Response status b \<Rightarrow>
          if \<not> ok status then Inl (''HTTP error! status: '' @ show_nat status)
          else (case b of Unreadable m \<Rightarrow> Inl m | Body x \<Rightarrow> Inr x))"

section \<open>YouTube\<close>

text \<open>
  \<open>decodeCipher\<close>: the \<open>url\<close>, \<open>sp\<close> and \<open>s\<close> fields of the cipher's query string; the
  url is decoded once more and, when both \<open>s\<close> and \<open>sp\<close> are non-empty, the signature
  is appended. Any exception gives the empty string.
\<close>

definition decodeCipher :: "string \<Rightarrow> string" where
  "decodeCipher signatureCipher =
     (let params = URLSearchParams signatureCipher;
          url = or_empty (params_get params ''url'');
          sp = or_empty (params_get params ''sp'');
          s = or_empty (params_get params ''s'')
      in if url = [] then []
         else
           (case decodeURIComponent url of
              Inl e \<Rightarrow> []
            | Inr decodedUrl \<Rightarrow>
                if s \<noteq> [] \<and> sp \<noteq> [] then decodedUrl @ ''&'' @ sp @ ''='' @ encodeURIComponent s
                else decodedUrl))"

text \<open>\<open>list || []\<close>.\<close>

fun or_nil :: "'a list option \<Rightarrow> 'a list" where
  "or_nil None = []"
| "or_nil (Some xs) = xs"

text \<open>
  \<open>getMimeType\<close>. \<open>mimeTypeStr?.split(';')[0].split('/') || ['', '']\<close>: for \<open>undefined\<close>
  the parts are two empty strings; for a string they are the pieces between the
  slashes of what stands before the first \<open>;\<close>. Were \<open>split(';')\<close> to return no piece,
  \<open>[0].split\<close> would raise a \<open>TypeError\<close>.
\<close>

definition mimeOfParts :: "string list \<Rightarrow> string \<times> media" where
  "mimeOfParts parts =
     (join ''/'' parts,
      if (case parts of [] \<Rightarrow> False | t # _ \<Rightarrow> t = ''audio'') then Audio else Video)"

definition getMimeType :: "string option \<Rightarrow> error + string \<times> media" where
  "getMimeType mimeTypeStr =
     (case mimeTypeStr of
        None \<Rightarrow> Inr (mimeOfParts [[], []])
      | Some s \<Rightarrow>
          (case split '';'' s of
             [] \<Rightarrow> Inl TypeError
           | p # _ \<Rightarrow> Inr (mimeOfParts (split ''/'' p))))"

definition finalUrlOf :: "StreamFormat \<Rightarrow> string" where
  "finalUrlOf f =
     (if truthy (s_url f) then or_empty (s_url f)
      else if truthy (s_signatureCipher f) then decodeCipher (or_empty (s_signatureCipher f))
      else [])"

text \<open>\<open>mimeType.split('/')[1] || 'unknown'\<close>.\<close>

definition containerOf :: "string \<Rightarrow> string" where
  "containerOf mime =
     (case split ''/'' mime of
        _ # c # _ \<Rightarrow> if c \<noteq> [] then c else ''unknown''
      | _ \<Rightarrow> ''unknown'')"

text \<open>The body of the two \<open>forEach\<close> loops: one record is pushed when the stream has a
  url.\<close>

definition pushFormat :: "StreamFormat \<Rightarrow> VideoFormat list \<Rightarrow> error + VideoFormat list" where
  "pushFormat f fs =
     (if finalUrlOf f \<noteq> [] then
        (case getMimeType (s_mimeType f) of
           Inl e \<Rightarrow> Inl e
         | Inr (mime, t) \<Rightarrow>
             Inr (fs @
               [\<lparr> quality = string_or (s_qualityLabel f) (s_quality f),
                  format = containerOf mime,
                  mimeType = mime,
                  type = t,
                  size_bytes =
                    (if truthy (s_contentLength f) then parseInt (or_empty (s_contentLength f))
                     else Num 0),
                  url = finalUrlOf f \<rparr>]))
      else Inr fs)"

text \<open>A loop stops at an exception; the records pushed until then stay in the array.\<close>

fun forEachPush ::
  "StreamFormat list \<Rightarrow> VideoFormat list \<Rightarrow> VideoFormat list \<times> error option" where
  "forEachPush [] fs = (fs, None)"
| "forEachPush (f # rest) fs =
     (case pushFormat f fs of
        Inl e \<Rightarrow> (fs, Some e)
      | Inr fs' \<Rightarrow> forEachPush rest fs')"

text \<open>\<open>parseInt(quality.replace(/[^\d]/g, '') || '0')\<close>: the number that the digits of
  the label write, one after the other.\<close>

definition digitsOf :: "string \<Rightarrow> int" where
  "digitsOf q = int (decimal (filter isDigit q))"

definition byVideoResolution :: "VideoFormat \<Rightarrow> VideoFormat \<Rightarrow> int" where
  "byVideoResolution a b =
     (if type a = Video \<and> type b = Video then digitsOf (quality b) - digitsOf (quality a)
      else 0)"

text \<open>
  \<open>extractFormatsFromPlayerResponse\<close>: the adaptive formats, then the regular ones, then
  the sort. The \<open>catch\<close> returns the records pushed before the exception.
\<close>

definition extractFormatsFromPlayerResponse :: "PlayerResponse \<Rightarrow> VideoFormat list" where
  "extractFormatsFromPlayerResponse playerResponse =
     (case streamingData playerResponse of
        None \<Rightarrow> []
      | Some sd \<Rightarrow>
          (case forEachPush (or_nil (adaptiveFormats sd)) [] of
             (fs, Some e) \<Rightarrow> fs
           | (fs, None) \<Rightarrow>
               (case forEachPush (or_nil (regularFormats sd)) fs of
                  (fs', Some e) \<Rightarrow> fs'
                | (fs', None) \<Rightarrow> js_sort byVideoResolution fs')))"

subsection \<open>The YouTube extractor\<close>

definition extractVideoId :: "World \<Rightarrow> string \<Rightarrow> string + string" where
  "extractVideoId w u =
     (case matchVideoId w u of None \<Rightarrow> Inl ''Invalid YouTube URL'' | Some v \<Rightarrow> Inr v)"

text \<open>\<open>extractDuration\<close> of the YouTube file: \<open>parseInt(lengthSeconds || '0', 10)\<close>.\<close>

definition extractDuration :: "PlayerResponse \<Rightarrow> number" where
  "extractDuration pr = parseIntBase False (string_or (lengthSeconds pr) ''0'')"

definition fetchVideoInfo :: "World \<Rightarrow> string \<Rightarrow> string + VideoMetadata" where
  "fetchVideoInfo w videoId =
     rethrow ''Failed to fetch video info: ''
       (andThen (bodyOrThrow (fetchWatchPage w (''https://www.youtube.com/watch?v='' @ videoId)))
          (\<lambda>page.
             let fs = extractFormatsFromPlayerResponse (ytInitialPlayerResponse page)
             in if fs = [] then Inl ''No video formats found''
                else Inr
                  \<lparr> title =
                      string_or (metaTitle page) (string_or (ogTitle page) ''Untitled''),
                    description =
                      string_or (metaDescription page) (string_or (ogDescription page) []),
                    duration = extractDuration (ytInitialPlayerResponse page),
                    thumbnail = ''https://img.youtube.com/vi/'' @ videoId @ ''/maxresdefault.jpg'',
                    formats = fs,
                    downloadUrl = None \<rparr>))"

definition extractYouTubeVideo ::
  "World \<Rightarrow> string \<Rightarrow> string option \<Rightarrow> string option \<Rightarrow> string + VideoMetadata" where
  "extractYouTubeVideo w u fmt qual =
     rethrow ''Failed to extract YouTube video: ''
       (andThen (extractVideoId w u)
       (\<lambda>videoId. andThen (fetchVideoInfo w videoId)
       (\<lambda>videoInfo.
          if formats videoInfo = [] then Inl ''No video formats found''
          else
            (let fs = filter (\<lambda>f. url f \<noteq> []) (formats videoInfo)
             in if fs = [] then Inl ''No formats with valid URLs found''
                else Inr (videoInfo\<lparr>formats := fs\<rparr>)))))"

definition getFormatsByType :: "World \<Rightarrow> string \<Rightarrow> media \<Rightarrow> string + VideoFormat list" where
  "getFormatsByType w u t =
     rethrow (''Failed to get '' @ mediaName t @ '' formats: '')
       (andThen (extractVideoId w u)
       (\<lambda>videoId. andThen (fetchVideoInfo w videoId)
       (\<lambda>videoInfo. Inr (filter (\<lambda>f. type f = t) (formats videoInfo)))))"

definition listAvailableFormats :: "World \<Rightarrow> string \<Rightarrow> string + VideoFormat list" where
  "listAvailableFormats w u =
     rethrow ''Failed to list formats: ''
       (andThen (extractVideoId w u)
       (\<lambda>videoId. andThen (fetchVideoInfo w videoId)
       (\<lambda>videoInfo. Inr (formats videoInfo))))"

section \<open>TikTok\<close>

text \<open>\<open>newSearch.toString()\<close>: the pairs in the form encoding, a space as \<open>+\<close>, the
  letters, the digits and \<open>* - . _\<close> as they are, every other byte as \<open>%XX\<close>.\<close>

definition formEncode :: "string \<Rightarrow> string" where
  "formEncode s =
     concat (map (\<lambda>c.
        if c = CHR '' '' then ''+''
        else if c \<in> set ''ABCDEFGHIJKLMNOPQRSTUVWXYZabcdefghijklmnopqrstuvwxyz0123456789*-._''
          then [c]
        else [CHR ''%'', hexDigit (of_char c div 16), hexDigit (of_char c mod 16)]) s)"

definition serializeParams :: "(string \<times> string) list \<Rightarrow> string" where
  "serializeParams ps = join ''&'' (map (\<lambda>(k, v). formEncode k @ ''='' @ formEncode v) ps)"

definition allowedParams :: "string list" where
  "allowedParams = [''id'']"

definition sanitizeTikTokUrl :: "World \<Rightarrow> string \<Rightarrow> string + string" where
  "sanitizeTikTokUrl w u =
     (case fetchHead w u of
        None \<Rightarrow> Inl ''Invalid TikTok URL''
      | Some finalUrl \<Rightarrow>
          (case parseURL w finalUrl of
             None \<Rightarrow> Inl ''Invalid TikTok URL''
           | Some urlObj \<Rightarrow>
               if hostname urlObj = ''vm.tiktok.com'' \<or> hostname urlObj = ''vt.tiktok.com''
               then Inr finalUrl
               else Inr (withSearch urlObj
                      (serializeParams
                         (filter (\<lambda>(k, v). k \<in> set allowedParams)
                            (URLSearchParams (search urlObj)))))))"

text \<open>The record that every strategy of the TikTok file builds for a url, under a
  quality label.\<close>

definition tiktokFormat :: "string \<Rightarrow> string \<Rightarrow> VideoFormat" where
  "tiktokFormat q u =
     \<lparr> quality = q, format = ''mp4'', mimeType = ''video/mp4'', type = Video,
       size_bytes = Num 0, url = u \<rparr>"

definition extractVideoData :: "TikTokPage \<Rightarrow> VideoData" where
  "extractVideoData page =
     (let videoData = (case jsonLd page of Some (Parsed d) \<Rightarrow> d | _ \<Rightarrow> emptyData);
          videoData =
            (if noKeys videoData then
               (case nextData page of
                  Some (Parsed d) \<Rightarrow> (case d of Some v \<Rightarrow> v | None \<Rightarrow> emptyData)
                | _ \<Rightarrow> videoData)
             else videoData);
          videoData =
            (if noKeys videoData then
               (case sigiState page of
                  Some (Parsed d) \<Rightarrow> (case d of Some v \<Rightarrow> v | None \<Rightarrow> emptyData)
                | _ \<Rightarrow> videoData)
             else videoData)
      in videoData)"

text \<open>\<open>url && url.startsWith('http')\<close>.\<close>

definition isHttp :: "string option \<Rightarrow> bool" where
  "isHttp v = (truthy v \<and> startsWith (or_empty v) ''http'')"

definition extractFormats :: "TikTokPage \<Rightarrow> VideoData \<Rightarrow> VideoFormat list" where
  "extractFormats page videoData =
     map (tiktokFormat ''original'') (filter (\<lambda>src. isHttp (Some src)) (videoSrcs page))
     @ (let videoUrl = (if truthy (ogVideo page) then ogVideo page else ogVideoUrl page)
        in if isHttp videoUrl then [tiktokFormat ''original'' (or_empty videoUrl)] else [])
     @ map (\<lambda>v. tiktokFormat ''original'' (or_empty v))
         (filter isHttp
            [vd_videoUrl videoData,
             (case vd_video videoData of None \<Rightarrow> None | Some a \<Rightarrow> playAddr a),
             (case vd_video videoData of None \<Rightarrow> None | Some a \<Rightarrow> downloadAddr a),
             (case vd_video videoData of None \<Rightarrow> None | Some a \<Rightarrow> playUrl a)])"

text \<open>\<open>url.split('/video/')[1]?.split('?')[0]\<close>.\<close>

definition videoIdOf :: "string \<Rightarrow> string option" where
  "videoIdOf u =
     (case split ''/video/'' u of
        _ # seg # _ \<Rightarrow> (case split ''?'' seg of [] \<Rightarrow> None | v # _ \<Rightarrow> Some v)
      | _ \<Rightarrow> None)"

definition getEmbedUrl :: "string \<Rightarrow> string option" where
  "getEmbedUrl u =
     (if truthy (videoIdOf u) then Some (''https://www.tiktok.com/embed/v2/'' @ or_empty (videoIdOf u))
      else None)"

text \<open>The two later strategies answer every failure with the empty list.\<close>

definition extractFromEmbed :: "World \<Rightarrow> string \<Rightarrow> VideoFormat list" where
  "extractFromEmbed w embedUrl =
     (case fetchEmbed w embedUrl of
        Rejected m \<Rightarrow> []
      | Response status b \<Rightarrow>
          if \<not> ok status then []
          else
            (case b of
               Unreadable m \<Rightarrow> []
             | Body srcs \<Rightarrow>
                 map (tiktokFormat ''original (embed)'') (filter (\<lambda>src. src \<noteq> []) srcs)))"

definition extractFromApi :: "World \<Rightarrow> string \<Rightarrow> VideoFormat list" where
  "extractFromApi w u =
     (if \<not> truthy (videoIdOf u) then []
      else
        (case fetchApi w
                (''https://api16-normal-c-useast1a.tiktokv.com/aweme/v1/feed/?aweme_id=''
                   @ or_empty (videoIdOf u)) of
           Rejected m \<Rightarrow> []
         | Response status b \<Rightarrow>
             if \<not> ok status then []
             else
               (case b of
                  Unreadable m \<Rightarrow> []
                | Body None \<Rightarrow> []
                | Body (Some videoData) \<Rightarrow>
                    (if truthy (play_addr videoData)
                     then [tiktokFormat ''original (no watermark)'' (or_empty (play_addr videoData))]
                     else [])
                    @ (if truthy (download_addr videoData)
                       then [tiktokFormat ''original (watermark)''
                               (or_empty (download_addr videoData))]
                       else []))))"

text \<open>\<open>s.replace(pat, rep)\<close> for a string \<open>pat\<close>: the first occurrence is replaced.\<close>

fun replaceFirst :: "string \<Rightarrow> string \<Rightarrow> string \<Rightarrow> string" where
  "replaceFirst pat rep [] = (if pat = [] then rep else [])"
| "replaceFirst pat rep (c # cs) =
     (if prefix pat (c # cs) then rep @ drop (length pat) (c # cs)
      else c # replaceFirst pat rep cs)"

definition extractTitle :: "TikTokPage \<Rightarrow> VideoData \<Rightarrow> string" where
  "extractTitle page videoData =
     string_or (vd_name videoData)
       (string_or (ogTitlePage page)
          (string_or (Some (trim (replaceFirst '' | TikTok'' [] (titleText page))))
             ''Untitled TikTok Video''))"

definition extractDescription :: "TikTokPage \<Rightarrow> VideoData \<Rightarrow> string" where
  "extractDescription page videoData =
     string_or (vd_description videoData)
       (string_or (ogDescriptionPage page) (string_or (metaDescriptionPage page) []))"

text \<open>\<open>extractDuration\<close> of the TikTok file.\<close>

definition extractDurationTikTok :: "TikTokPage \<Rightarrow> VideoData \<Rightarrow> number" where
  "extractDurationTikTok page videoData =
     (let d = (if truthy (vd_duration videoData) then vd_duration videoData
               else videoDuration page)
      in if truthy d then (case parseInt (or_empty d) of NaN \<Rightarrow> Num 0 | Num n \<Rightarrow> Num n)
         else Num 0)"

definition extractThumbnail :: "TikTokPage \<Rightarrow> VideoData \<Rightarrow> string" where
  "extractThumbnail page videoData =
     string_or (vd_thumbnailUrl videoData) (string_or (ogImage page) [])"

text \<open>\<open>self.findIndex(p)\<close>, and the filter that keeps a record when its index is the
  index of the first record with its url.\<close>

fun findIndex :: "('a \<Rightarrow> bool) \<Rightarrow> 'a list \<Rightarrow> int" where
  "findIndex p [] = - 1"
| "findIndex p (x # xs) =
     (if p x then 0 else (if findIndex p xs = - 1 then - 1 else findIndex p xs + 1))"

definition firstOfEachUrl :: "VideoFormat list \<Rightarrow> VideoFormat list" where
  "firstOfEachUrl fs =
     map snd
       (filter (\<lambda>(index, f). int index = findIndex (\<lambda>t. url t = url f) fs)
          (enumerate 0 fs))"

definition byWatermark :: "VideoFormat \<Rightarrow> VideoFormat \<Rightarrow> int" where
  "byWatermark a b =
     (if noWatermark a \<and> \<not> noWatermark b then - 1
      else if \<not> noWatermark a \<and> noWatermark b then 1
      else 0)"

text \<open>
  \<open>fetchTikTokInfo\<close>. \<open>gatherFormats\<close> is the list that the strategies leave: the formats
  of the page, else those of the embed page, else those of the API. \<open>tidyFormats\<close>
  drops the records without url and the repeated urls, and sorts.
\<close>

definition gatherFormats :: "World \<Rightarrow> string \<Rightarrow> TikTokPage \<Rightarrow> VideoFormat list" where
  "gatherFormats w u page =
     (let fs = extractFormats page (extractVideoData page);
          fs = (if fs = [] then
                  (case getEmbedUrl u of
                     Some embedUrl \<Rightarrow> fs @ extractFromEmbed w embedUrl
                   | None \<Rightarrow> fs)
                else fs);
          fs = (if fs = [] then fs @ extractFromApi w u else fs)
      in fs)"

definition tidyFormats :: "VideoFormat list \<Rightarrow> VideoFormat list" where
  "tidyFormats fs = js_sort byWatermark (firstOfEachUrl (filter (\<lambda>f. url f \<noteq> []) fs))"

definition fetchTikTokInfo :: "World \<Rightarrow> string \<Rightarrow> string + VideoMetadata" where
  "fetchTikTokInfo w u =
     rethrow ''Failed to fetch TikTok info: ''
       (andThen (bodyOrThrow (fetchPage w u))
          (\<lambda>page.
             Inr \<lparr> title = extractTitle page (extractVideoData page),
                   description = extractDescription page (extractVideoData page),
                   duration = extractDurationTikTok page (extractVideoData page),
                   thumbnail = extractThumbnail page (extractVideoData page),
                   formats = tidyFormats (gatherFormats w u page),
                   downloadUrl = None \<rparr>))"

definition extractTikTokVideo :: "World \<Rightarrow> string \<Rightarrow> string + VideoMetadata" where
  "extractTikTokVideo w u =
     rethrow ''Failed to extract TikTok video: ''
       (andThen (sanitizeTikTokUrl w u)
       (\<lambda>cleanUrl. andThen (fetchTikTokInfo w cleanUrl)
       (\<lambda>videoInfo.
          if formats videoInfo = [] then Inl ''No video formats found''
          else Inr videoInfo)))"

text \<open>\<open>listAvailableFormats\<close> of the TikTok file, under the name \<open>mdu.ts\<close> imports it
  by.\<close>

definition listTikTokFormats :: "World \<Rightarrow> string \<Rightarrow> string + VideoFormat list" where
  "listTikTokFormats w u =
     rethrow ''Failed to list formats: ''
       (andThen (fetchTikTokInfo w u) (\<lambda>videoInfo. Inr (formats videoInfo)))"

section \<open>The platform module of the sources\<close>

definition platformModule :: "World \<Rightarrow> (string \<Rightarrow> platform) \<Rightarrow> string \<Rightarrow> PlatformModule" where
  "platformModule w detect names =
     \<lparr> detectPlatform = detect,
       supportedPlatforms = names,
       youtubeExtract = extractYouTubeVideo w,
       tiktokExtract = extractTikTokVideo w,
       youtubeList = listAvailableFormats w,
       youtubeByType = getFormatsByType w,
       tiktokList = listTikTokFormats w \<rparr>"

section \<open>Notions for the statements\<close>

text \<open>The comparators of \<open>extractVideo\<close> order by these keys, smallest first.\<close>

definition resolutionKey :: "VideoFormat \<Rightarrow> int" where
  "resolutionKey f = - getQualityNumber (quality f)"

definition watermarkKey :: "VideoFormat \<Rightarrow> nat \<times> int" where
  "watermarkKey f = (if noWatermark f then 0 else 1, - or_zero (size_bytes f))"

text \<open>
  \<open>ranksBefore a b\<close>: \<open>a\<close> may stand before \<open>b\<close> in the ranking for TikTok. A record
  without the marker never stands before one with it, and of two records alike in the
  marker the one of smaller size never stands first.
\<close>

definition ranksBefore :: "VideoFormat \<Rightarrow> VideoFormat \<Rightarrow> bool" where
  "ranksBefore a b =
     ((noWatermark b \<longrightarrow> noWatermark a)
      \<and> (noWatermark a = noWatermark b \<longrightarrow> or_zero (size_bytes b) \<le> or_zero (size_bytes a)))"

text \<open>
  The numeric resolution as the specification words it: the leading integer of the
  label, \<open>0\<close> for a label that does not start with a digit.
\<close>

definition leadingInteger :: "string \<Rightarrow> int" where
  "leadingInteger q =
     (if takeWhile isDigit q = [] then 0 else int (decimal (takeWhile isDigit q)))"

text \<open>The messages of the failures that \<open>extractVideo\<close> raises itself inside its
  \<open>try\<close> block.\<close>

definition stageMessages :: "Params \<Rightarrow> string \<Rightarrow> string set" where
  "stageMessages params names =
     { ''Unsupported platform. Currently supports: '' @ names,
       ''No formats matching '' @ [CHR 0x27] @ or_empty (p_format params) @ [CHR 0x27]
          @ '' found'',
       ''No quality matching '' @ [CHR 0x27] @ or_empty (p_quality params) @ [CHR 0x27]
          @ '' found'',
       ''No audio formats found'', ''No video formats found'',
       ''No valid formats found with URLs'' }"

text \<open>
  A value that the parser of the query string hands back as it is: no \<open>&\<close>, no \<open>+\<close>, no
  percent-escape, well formed.
\<close>

definition plainValue :: "string \<Rightarrow> bool" where
  "plainValue s =
     (CHR ''&'' \<notin> set s \<and> CHR ''+'' \<notin> set s \<and> percent_decode s = s \<and> wellFormed s)"

text \<open>The records that one stream adds to the list: one, or none when the stream has
  no url.\<close>

definition pushed :: "StreamFormat \<Rightarrow> VideoFormat list" where
  "pushed f = (case pushFormat f [] of Inr fs \<Rightarrow> fs | Inl e \<Rightarrow> [])"

text \<open>The records of a list that are the first with their url, the urls in \<open>seen\<close>
  counting as met before.\<close>

fun keepFirst :: "string set \<Rightarrow> VideoFormat list \<Rightarrow> VideoFormat list" where
  "keepFirst seen [] = []"
| "keepFirst seen (x # xs) =
     (if url x \<in> seen then keepFirst seen xs else x # keepFirst (insert (url x) seen) xs)"

text \<open>A fetch that fails: the promise is rejected, or the status is not 2xx.\<close>

definition fetchFailed :: "'a response \<Rightarrow> bool" where
  "fetchFailed r = (case r of Rejected m \<Rightarrow> True | Response status b \<Rightarrow> \<not> ok status)"

definition apiUrl :: "string \<Rightarrow> string" where
  "apiUrl u =
     ''https://api16-normal-c-useast1a.tiktokv.com/aweme/v1/feed/?aweme_id=''
       @ or_empty (videoIdOf u)"

section \<open>Example inputs\<close>

definition labelled :: "string \<Rightarrow> string \<Rightarrow> media \<Rightarrow> int \<Rightarrow> string \<Rightarrow> VideoFormat" where
  "labelled q c t n u =
     \<lparr> quality = q, format = c, mimeType = mediaName t @ ''/'' @ c, type = t,
       size_bytes = Num n, url = u \<rparr>"

definition metadataOf :: "VideoFormat list \<Rightarrow> VideoMetadata" where
  "metadataOf fs =
     \<lparr> title = ''Untitled'', description = [], duration = Num 0, thumbnail = [],
       formats = fs, downloadUrl = None \<rparr>"

text \<open>A platform module whose detector answers \<open>pl\<close> and whose extractors find \<open>fs\<close>.\<close>

definition exampleModule :: "platform \<Rightarrow> VideoFormat list \<Rightarrow> PlatformModule" where
  "exampleModule pl fs =
     \<lparr> detectPlatform = (\<lambda>u. pl),
       supportedPlatforms = ''Youtube, Tiktok'',
       youtubeExtract = (\<lambda>u f q. Inr (metadataOf fs)),
       tiktokExtract = (\<lambda>u. Inr (metadataOf fs)),
       youtubeList = (\<lambda>u. Inr fs),
       youtubeByType = (\<lambda>u t. Inr (filter (\<lambda>f. type f = t) fs)),
       tiktokList = (\<lambda>u. Inr fs) \<rparr>"

text \<open>The request \<open>{ url: u }\<close> and the query \<open>?url=u\<close>.\<close>

definition requestFor :: "string \<Rightarrow> VideoExtractRequest" where
  "requestFor u =
     \<lparr> r_url = Some u, r_format = Absent, r_quality = Absent, r_download = Absent,
       r_info = Absent, r_type = Absent \<rparr>"

definition queryFor :: "string \<Rightarrow> Query" where
  "queryFor u =
     \<lparr> q_url = Some u, q_format = None, q_quality = None, q_download = None,
       q_info = None, q_type = None \<rparr>"

definition youtubeUrl :: string where
  "youtubeUrl = ''https://youtu.be/XXXXXXXXXXX''"

definition tiktokUrl :: string where
  "tiktokUrl = ''https://www.tiktok.com/@user/video/7000000000000000001''"

definition scenarioA :: "VideoFormat list" where
  "scenarioA =
     [labelled ''360p'' ''mp4'' Video 0 ''https://v.example/360'',
      labelled ''tiny'' ''mp4'' Audio 0 ''https://v.example/audio'',
      labelled ''1080p60'' ''mp4'' Video 0 ''https://v.example/1080'',
      labelled ''720p'' ''webm'' Video 0 ''https://v.example/720'',
      labelled ''360p'' ''mp4'' Video 0 ''https://v.example/360b'']"

definition scenarioB :: "VideoFormat list" where
  "scenarioB =
     [labelled ''original (watermark)'' ''mp4'' Video 900000 ''https://v.example/marked'',
      labelled ''original (no watermark)'' ''mp4'' Video 500000 ''https://v.example/clean'']"

definition unmarked :: "VideoFormat list" where
  "unmarked =
     [labelled ''720'' ''mp4'' Video 0 ''https://v.example/720'',
      labelled ''480p'' ''mp4'' Video 0 ''https://v.example/480'']"

definition stream :: "string \<Rightarrow> string \<Rightarrow> string option \<Rightarrow> StreamFormat" where
  "stream u q m =
     \<lparr> s_url = Some u, s_signatureCipher = None, s_mimeType = m, s_qualityLabel = Some q,
       s_quality = ''medium'', s_contentLength = Some ''1024'' \<rparr>"

definition playerWith :: "StreamFormat list \<Rightarrow> StreamFormat list \<Rightarrow> PlayerResponse" where
  "playerWith adaptive regular =
     \<lparr> streamingData =
         Some \<lparr> adaptiveFormats = Some adaptive, regularFormats = Some regular \<rparr>,
       lengthSeconds = Some ''212'' \<rparr>"

definition pageWith :: "string list \<Rightarrow> string option \<Rightarrow> TikTokPage" where
  "pageWith srcs og =
     \<lparr> jsonLd = None, nextData = None, sigiState = None, videoSrcs = srcs, ogVideo = og,
       ogVideoUrl = None, ogTitlePage = None, titleText = ''Clip | TikTok'',
       ogDescriptionPage = None, metaDescriptionPage = None, videoDuration = Some ''15'',
       ogImage = None \<rparr>"

definition watchPage :: "PlayerResponse \<Rightarrow> YouTubePage" where
  "watchPage pr =
     \<lparr> metaTitle = Some ''Clip'', ogTitle = None, metaDescription = None,
       ogDescription = None, ytInitialPlayerResponse = pr \<rparr>"

text \<open>A world in which the watch page of YouTube is \<open>yt\<close> and the page, the embed page
  and the API of TikTok answer \<open>page\<close>, \<open>emb\<close> and \<open>api\<close>; a url is its own final url
  and has no query.\<close>

definition exampleWorld ::
  "YouTubePage response \<Rightarrow> TikTokPage response \<Rightarrow> string list response
     \<Rightarrow> Aweme option response \<Rightarrow> World" where
  "exampleWorld yt page emb api =
     \<lparr> matchVideoId = (\<lambda>u. Some ''XXXXXXXXXXX''),
       fetchWatchPage = (\<lambda>u. yt),
       fetchHead = (\<lambda>u. Some u),
       parseURL =
         (\<lambda>s. Some \<lparr> hostname = ''www.tiktok.com'', search = [], withSearch = (\<lambda>q. s) \<rparr>),
       fetchPage = (\<lambda>u. page),
       fetchEmbed = (\<lambda>u. emb),
       fetchApi = (\<lambda>u. api) \<rparr>"

definition bothAddrs :: "Aweme option response" where
  "bothAddrs =
     Response 200
       (Body (Some \<lparr> play_addr = Some ''https://v.example/clean'',
                     download_addr = Some ''https://v.example/marked'' \<rparr>))"

definition notFound :: World where
  "notFound =
     exampleWorld (Rejected []) (Response 404 (Body (pageWith [] None)))
       (Response 200 (Body [''https://v.example/embedded''])) bothAddrs"

definition apiDown :: World where
  "apiDown =
     exampleWorld (Rejected []) (Response 200 (Body (pageWith [] None)))
       (Response 500 (Body [])) (Rejected ''socket hang up'')"

definition noUrls :: "VideoFormat list" where
  "noUrls = [labelled ''720p'' ''mp4'' Video 0 [], labelled ''360p'' ''mp4'' Video 0 []]"

definition mixedUrls :: "VideoFormat list" where
  "mixedUrls =
     [labelled ''720p'' ''mp4'' Video 0 [],
      labelled ''360p'' ''mp4'' Video 0 ''https://v.example/360'']"

section \<open>Properties of the runtime functions\<close>

lemma split_none: "c \<notin> set s \<Longrightarrow> split [c] s = [s]"
  by (induction s) (auto simp: split.simps)

lemma split_at: "c \<notin> set xs \<Longrightarrow> split [c] (xs @ c # ys) = xs # split [c] ys"
  by (induction xs) (auto simp: split.simps)

lemma percent_decode_plain: "CHR ''%'' \<notin> set s \<Longrightarrow> percent_decode s = s"
  by (induction s rule: percent_decode.induct) auto

lemma decodeURIComponent_plain: "CHR ''%'' \<notin> set s \<Longrightarrow> decodeURIComponent s = Inr s"
  by (induction s) auto

lemma plus_plain:
  "CHR ''+'' \<notin> set s \<Longrightarrow> map (\<lambda>c. if c = CHR ''+'' then CHR '' '' else c) s = s"
  by (induction s) auto

lemma form_decode_plain: "plainValue s \<Longrightarrow> form_decode s = s"
  by (simp add: form_decode_def plus_plain wellFormed_def plainValue_def)

lemma form_pair_eq:
  "CHR ''='' \<notin> set k \<Longrightarrow> form_pair (k @ CHR ''='' # v) = (form_decode k, form_decode v)"
  by (simp add: form_pair_def takeWhile_append dropWhile_append)

lemma form_decode_names:
  "form_decode ''url'' = ''url''" "form_decode ''sp'' = ''sp''" "form_decode ''s'' = ''s''"
  "form_decode ''signature'' = ''signature''"
  by (simp_all add: form_decode_def utf8_decode_def)

section \<open>The cipher\<close>

lemma params_url_only:
  assumes "plainValue U" "U \<noteq> []"
  shows "URLSearchParams (''url='' @ U) = [(''url'', U)]"
proof -
  have "split ''&'' (''url='' @ U) = [''url='' @ U]"
    using assms by (intro split_none) (simp add: plainValue_def)
  moreover have "form_pair (''url'' @ CHR ''='' # U) = (''url'', U)"
    using assms form_pair_eq [of "''url''" U] by (simp add: form_decode_names form_decode_plain)
  ultimately show ?thesis
    by (simp add: URLSearchParams_def startsWith_def)
qed

lemma params_cipher:
  assumes "plainValue U" "plainValue S"
  shows "URLSearchParams (''url='' @ U @ ''&sp=signature&s='' @ S)
           = [(''url'', U), (''sp'', ''signature''), (''s'', S)]"
proof -
  have a: "CHR ''&'' \<notin> set (''url='' @ U)" "CHR ''&'' \<notin> set ''sp=signature''"
    "CHR ''&'' \<notin> set (''s='' @ S)"
    using assms by (simp_all add: plainValue_def)
  have "split ''&'' ((''url='' @ U) @ CHR ''&'' # ''sp=signature'' @ CHR ''&'' # (''s='' @ S))
          = [''url='' @ U, ''sp=signature'', ''s='' @ S]"
    by (simp only: split_at[OF a(1)] split_at[OF a(2)] split_none[OF a(3)])
  then have sp: "split ''&'' (''url='' @ U @ ''&sp=signature&s='' @ S)
          = [''url='' @ U, ''sp=signature'', ''s='' @ S]"
    by simp
  have p1: "form_pair (''url'' @ CHR ''='' # U) = (''url'', U)"
    using assms form_pair_eq [of "''url''" U] by (simp add: form_decode_names form_decode_plain)
  have p2: "form_pair (''sp'' @ CHR ''='' # ''signature'') = (''sp'', ''signature'')"
    using form_pair_eq [of "''sp''" "''signature''"] by (simp add: form_decode_names)
  have p3: "form_pair (''s'' @ CHR ''='' # S) = (''s'', S)"
    using assms form_pair_eq [of "''s''" S] by (simp add: form_decode_names form_decode_plain)
  show ?thesis
    using sp p1 p2 p3 by (simp add: URLSearchParams_def startsWith_def)
qed

text \<open>
  Claim C4, as amended. For a base url \<open>U\<close> that is not empty and holds no \<open>&\<close>, \<open>+\<close> or
  \<open>%\<close>, and a signature \<open>S\<close> that is not empty and holds no \<open>&\<close>, \<open>+\<close> or percent-escape
  (both well formed), decoding \<open>url=U&sp=signature&s=S\<close> yields \<open>U\<close>, then \<open>&signature=\<close>,
  then \<open>encodeURIComponent(S)\<close>; and decoding \<open>url=U\<close> alone yields \<open>U\<close>, for every such
  \<open>U\<close>, the empty one too.
\<close>

theorem decodeCipher_roundtrip:
  "(plainValue U \<and> CHR ''%'' \<notin> set U \<and> U \<noteq> [] \<and> plainValue S \<and> S \<noteq> [] \<longrightarrow>
      decodeCipher (''url='' @ U @ ''&sp=signature&s='' @ S)
        = U @ ''&signature='' @ encodeURIComponent S)
   \<and> (plainValue U \<and> CHR ''%'' \<notin> set U \<longrightarrow> decodeCipher (''url='' @ U) = U)"
proof (intro conjI impI)
  assume h: "plainValue U \<and> CHR ''%'' \<notin> set U \<and> U \<noteq> [] \<and> plainValue S \<and> S \<noteq> []"
  then show "decodeCipher (''url='' @ U @ ''&sp=signature&s='' @ S)
        = U @ ''&signature='' @ encodeURIComponent S"
    using params_cipher [of U S]
    by (simp add: decodeCipher_def params_get_def decodeURIComponent_plain)
next
  assume h: "plainValue U \<and> CHR ''%'' \<notin> set U"
  show "decodeCipher (''url='' @ U) = U"
  proof (cases "U = []")
    case True
    then show ?thesis
      by (simp add: decodeCipher_def URLSearchParams_def startsWith_def form_pair_def split.simps
          form_decode_names params_get_def form_decode_def utf8_decode_def)
  next
    case False
    with h show ?thesis
      using params_url_only [of U]
      by (simp add: decodeCipher_def params_get_def decodeURIComponent_plain)
  qed
qed

theorem decodeCipher_roundtrip_witness:
  "decodeCipher ''url=https://h/v?a=1&sp=signature&s=AB==''
     = ''https://h/v?a=1&signature=AB%3D%3D''
   \<and> decodeCipher ''url=https://h/v?a=1'' = ''https://h/v?a=1''"
  using decodeCipher_roundtrip [of "''https://h/v?a=1''" "''AB==''"]
  by (simp add: plainValue_def wellFormed_def utf8_decode_def encodeURIComponent_def
      encodeChar_def unreserved_def hexDigit_def split.simps)

text \<open>
  Claim C4 as it is written fails for a base url with two query parameters: the cipher
  is cut at the \<open>&\<close> inside the url, so the decoded url loses \<open>&b=2\<close>, with and without a
  signature.
\<close>

theorem decodeCipher_counterexample:
  "decodeCipher (''url='' @ ''https://h/v?a=1&b=2'' @ ''&sp=signature&s='' @ ''x'')
      \<noteq> ''https://h/v?a=1&b=2'' @ ''&signature='' @ encodeURIComponent ''x''
   \<and> decodeCipher (''url='' @ ''https://h/v?a=1&b=2'') \<noteq> ''https://h/v?a=1&b=2''"
  by code_simp

section \<open>Sorting with a consistent comparator\<close>

lemma insort_cmp_key:
  fixes key :: "'a \<Rightarrow> 'k::linorder"
  assumes "\<And>a b. (cmp a b \<le> 0) = (key a \<le> key b)"
  shows "insort_cmp cmp x xs = insort_key key x xs"
  by (induction xs) (simp_all add: assms)

lemma js_sort_key:
  fixes key :: "'a \<Rightarrow> 'k::linorder"
  assumes "\<And>a b. (cmp a b \<le> 0) = (key a \<le> key b)"
  shows "js_sort cmp xs = sort_key key xs"
proof -
  have "insort_cmp cmp = insort_key key"
    using insort_cmp_key [of cmp key, OF assms] by (intro ext)
  then show ?thesis
    by (simp add: js_sort_def sort_key_def)
qed

lemma mset_js_sort: "mset (js_sort cmp xs) = mset xs"
proof -
  have "mset (insort_cmp cmp x ys) = add_mset x (mset ys)" for x ys
    by (induction ys) simp_all
  then show ?thesis
    unfolding js_sort_def by (induction xs) simp_all
qed

lemma set_js_sort: "set (js_sort cmp xs) = set xs"
  by (metis mset_js_sort set_mset_mset)

lemma byResolution_key: "(byResolution a b \<le> 0) = (resolutionKey a \<le> resolutionKey b)"
  by (simp add: byResolution_def resolutionKey_def)

lemma byWatermark_key:
  "(byWatermarkThenSize a b \<le> 0) = (watermarkKey a \<le> watermarkKey b)"
  by (simp add: byWatermarkThenSize_def watermarkKey_def less_eq_prod_def)

lemma stable_around_sort:
  fixes key :: "'a \<Rightarrow> 'k::linorder"
  shows "subseq (filter (\<lambda>x. key x = k) (filter Q (sort_key key (filter R xs)))) xs"
proof -
  have "filter (\<lambda>x. key x = k) (filter Q (sort_key key (filter R xs)))
          = filter Q (filter (\<lambda>x. key x = k) (sort_key key (filter R xs)))"
    by (simp add: conj_commute)
  also have "\<dots> = filter Q (filter (\<lambda>x. key x = k) (filter R xs))"
    by (simp only: sort_key_stable)
  finally show ?thesis
    by (metis subseq_filter_left subseq_order.order_trans)
qed

lemma sorted_wrt_hd: 
  assumes "sorted_wrt R xs" "\<And>x. R x x" "f \<in> set xs" shows "R (hd xs) f"
  using assms by (cases xs) auto

section \<open>The stages of extractVideo\<close>

lemma andThen_Inr: "(andThen x f = Inr y) = (\<exists>a. x = Inr a \<and> f a = Inr y)"
  by (cases x) simp_all

lemma andThen_Inl: "(andThen x f = Inl e) = (x = Inl e \<or> (\<exists>a. x = Inr a \<and> f a = Inl e))"
  by (cases x) simp_all

lemma andThen_assoc: "andThen (andThen a f) g = andThen a (\<lambda>x. andThen (f x) g)"
  by (cases a) simp_all

lemma rethrow_Inr: "(rethrow pre x = Inr y) = (x = Inr y)"
  by (cases x) simp_all

lemma rethrow_Inl: "(rethrow pre x = Inl e) = (\<exists>inner. x = Inl inner \<and> e = pre @ inner)"
  by (cases x) auto

lemma filterFormat_Inr:
  "filterFormat params r = Inr r' \<Longrightarrow> \<exists>R. r' = r\<lparr>formats := filter R (formats r)\<rparr>"
proof (cases "truthy (p_format params)")
  case True
  assume "filterFormat params r = Inr r'"
  with True show ?thesis
    by (auto simp: filterFormat_def Let_def split: if_splits)
next
  case False
  assume "filterFormat params r = Inr r'"
  with False have "r' = r\<lparr>formats := filter (\<lambda>_. True) (formats r)\<rparr>"
    by (simp add: filterFormat_def)
  then show ?thesis by blast
qed

lemma filterFormat_Inl:
  "filterFormat params r = Inl e \<Longrightarrow>
   e = ''No formats matching '' @ [CHR 0x27] @ or_empty (p_format params) @ [CHR 0x27] @ '' found''"
  by (auto simp: filterFormat_def Let_def split: if_splits)

lemma filterQuality_highest:
  "p_quality params = Some ''highest'' \<Longrightarrow> filterQuality params r = Inr r"
  by (simp add: filterQuality_def)

lemma filterQuality_Inl:
  "filterQuality params r = Inl e \<Longrightarrow>
   e = ''No quality matching '' @ [CHR 0x27] @ or_empty (p_quality params) @ [CHR 0x27] @ '' found''"
  by (auto simp: filterQuality_def Let_def split: if_splits)

lemma filterType_Inr:
  "filterType params r = Inr r' \<Longrightarrow> \<exists>Q. r' = r\<lparr>formats := filter Q (formats r)\<rparr>"
proof (cases "p_type params")
  case None
  assume "filterType params r = Inr r'"
  with None have "r' = r\<lparr>formats := filter (\<lambda>_. True) (formats r)\<rparr>"
    by (simp add: filterType_def)
  then show ?thesis by blast
next
  case (Some t)
  assume "filterType params r = Inr r'"
  with Some show ?thesis
    by (auto simp: filterType_def Let_def split: if_splits)
qed

lemma filterType_Inl:
  "filterType params r = Inl e \<Longrightarrow>
   \<exists>t. p_type params = Some t \<and> e = ''No '' @ mediaName t @ '' formats found''"
  by (auto simp: filterType_def Let_def split: if_splits option.splits)

lemma removeWithoutUrls_Inr:
  "(removeWithoutUrls r = Inr r') =
     (filter (\<lambda>f. url f \<noteq> []) (formats r) \<noteq> []
      \<and> r' = r\<lparr>formats := filter (\<lambda>f. url f \<noteq> []) (formats r)\<rparr>)"
  by (auto simp: removeWithoutUrls_def Let_def)

lemma removeWithoutUrls_Inl:
  "(removeWithoutUrls r = Inl e) =
     (filter (\<lambda>f. url f \<noteq> []) (formats r) = [] \<and> e = ''No valid formats found with URLs'')"
  by (auto simp: removeWithoutUrls_def Let_def)

lemma setDownloadUrl_Inr:
  "formats r \<noteq> [] \<Longrightarrow>
   setDownloadUrl params r =
     Inr (if p_download params = Some True then r\<lparr>downloadUrl := Some (url (hd (formats r)))\<rparr>
          else r)"
  by (cases "formats r") (simp_all add: setDownloadUrl_def)

lemma setDownloadUrl_not_Inl: "formats r \<noteq> [] \<Longrightarrow> setDownloadUrl params r \<noteq> Inl e"
  by (simp add: setDownloadUrl_Inr)

lemma extractVideo_Inr:
  "(extractVideo P request = Inr m) =
     (truthy (r_url request)
      \<and> extractVideo_try P (setDefaults request (or_empty (r_url request))) = Inr m)"
  by (simp add: extractVideo_def rethrow_Inr)

text \<open>What a successful run of the \<open>try\<close> block returns, and how it can fail.\<close>

lemma try_Inr:
  assumes "extractVideo_try P params = Inr m"
  shows "\<exists>r0 Q. extractPlatform P params = Inr r0
           \<and> filter Q (formats r0) \<noteq> []
           \<and> (\<forall>f \<in> set (filter Q (formats r0)). url f \<noteq> [])
           \<and> formats m = (if p_info params = Some True then [] else filter Q (formats r0))"
proof -
  from assms obtain r0 r1 r2 r3 where
    a: "extractPlatform P params = Inr r0" and b: "filterType params r0 = Inr r1"
    and c: "removeWithoutUrls r1 = Inr r2" and d: "setDownloadUrl params r2 = Inr r3"
    and e: "m = infoOnly params r3"
    by (auto simp: extractVideo_try_def andThen_Inr)
  from b obtain Q where q: "formats r1 = filter Q (formats r0)"
    using filterType_Inr by fastforce
  from c have c': "formats r2 = filter (\<lambda>f. url f \<noteq> []) (formats r1)" "formats r2 \<noteq> []"
    by (auto simp: removeWithoutUrls_Inr)
  from d c' have d': "formats r3 = formats r2"
    by (auto simp: setDownloadUrl_Inr split: if_splits)
  let ?Q = "\<lambda>f. Q f \<and> url f \<noteq> []"
  have "formats r3 = filter ?Q (formats r0)"
    using q c' d' by simp
  with a c' d' e show ?thesis
    by (intro exI[of _ r0] exI[of _ ?Q]) (auto simp: infoOnly_def)
qed

lemma try_formats:
  assumes "extractVideo_try P params = Inr m" "p_info params \<noteq> Some True"
  shows "formats m \<noteq> [] \<and> (\<forall>f \<in> set (formats m). url f \<noteq> [])"
  using try_Inr [OF assms(1)] assms(2) by auto

lemma extractPlatform_Inl:
  assumes "extractPlatform P params = Inl e"
  shows "youtubeExtract P (p_url params) (p_format params) (p_quality params) = Inl e
      \<or> tiktokExtract P (p_url params) = Inl e
      \<or> e \<in> stageMessages params (supportedPlatforms P)"
proof (cases "detectPlatform P (p_url params)")
  case YouTube
  with assms show ?thesis
    by (auto simp: extractPlatform_def andThen_Inl stageMessages_def
        dest!: filterFormat_Inl filterQuality_Inl)
next
  case TikTok
  with assms show ?thesis
    by (auto simp: extractPlatform_def andThen_Inl stageMessages_def
        dest!: filterFormat_Inl filterQuality_Inl)
next
  case Unknown
  with assms show ?thesis
    by (simp add: extractPlatform_def stageMessages_def)
qed

lemma try_Inl:
  assumes "extractVideo_try P params = Inl e"
  shows "youtubeExtract P (p_url params) (p_format params) (p_quality params) = Inl e
      \<or> tiktokExtract P (p_url params) = Inl e
      \<or> e \<in> stageMessages params (supportedPlatforms P)"
proof -
  from assms consider
    (a) "extractPlatform P params = Inl e"
    | (b) r0 where "filterType params r0 = Inl e"
    | (c) r1 where "removeWithoutUrls r1 = Inl e"
    | (d) r2 r1 where "removeWithoutUrls r1 = Inr r2" "setDownloadUrl params r2 = Inl e"
    by (auto simp: extractVideo_try_def andThen_Inl)
  then show ?thesis
  proof cases
    case a
    then show ?thesis by (rule extractPlatform_Inl)
  next
    case b
    then obtain t where "e = ''No '' @ mediaName t @ '' formats found''"
      using filterType_Inl by blast
    then show ?thesis
      by (cases t) (simp_all add: stageMessages_def mediaName_def)
  next
    case c
    then show ?thesis
      by (simp add: removeWithoutUrls_Inl stageMessages_def)
  next
    case d
    then have "formats r2 \<noteq> []"
      by (auto simp: removeWithoutUrls_Inr)
    with d(2) show ?thesis
      using setDownloadUrl_not_Inl by blast
  qed
qed

lemma platform_youtube_highest:
  assumes "detectPlatform P (p_url params) = YouTube" "p_quality params = Some ''highest''"
    "extractPlatform P params = Inr r0"
  shows "\<exists>m0 R. youtubeExtract P (p_url params) (p_format params) (p_quality params) = Inr m0
           \<and> formats r0 = js_sort byResolution (filter R (formats m0))"
proof -
  from assms obtain m0 r1 where
    a: "youtubeExtract P (p_url params) (p_format params) (p_quality params) = Inr m0"
    and b: "filterFormat params m0 = Inr r1"
    and c: "r0 = sortHighest byResolution params r1"
    by (auto simp: extractPlatform_def andThen_Inr filterQuality_highest)
  from b obtain R where "formats r1 = filter R (formats m0)"
    using filterFormat_Inr by fastforce
  with a c assms(2) show ?thesis
    by (auto simp: sortHighest_def)
qed

lemma platform_tiktok_highest:
  assumes "detectPlatform P (p_url params) = TikTok" "p_quality params = Some ''highest''"
    "extractPlatform P params = Inr r0"
  shows "\<exists>m0 R. tiktokExtract P (p_url params) = Inr m0
           \<and> formats r0 = js_sort byWatermarkThenSize (filter R (formats m0))"
proof -
  from assms obtain m0 r1 where
    a: "tiktokExtract P (p_url params) = Inr m0"
    and b: "filterFormat params m0 = Inr r1"
    and c: "r0 = sortHighest byWatermarkThenSize params r1"
    by (auto simp: extractPlatform_def andThen_Inr filterQuality_highest)
  from b obtain R where "formats r1 = filter R (formats m0)"
    using filterFormat_Inr by fastforce
  with a c assms(2) show ?thesis
    by (auto simp: sortHighest_def)
qed

section \<open>Defaults\<close>

text \<open>A property that the request holds with a value wins over the default, and the
  default stands where the request has no such property.\<close>

lemma spread_supplied: "spread d (Val v) = Some v" "spread d Absent = Some d" "spread d Undefined = None"
  by simp_all

lemma setDefaults_absent:
  "setDefaults (requestFor u) u =
     \<lparr> p_url = u, p_format = Some ''mp4'', p_quality = Some ''highest'',
       p_download = Some False, p_info = Some False, p_type = Some Video \<rparr>"
  by (simp add: setDefaults_def requestFor_def string_or_def)

lemma setDefaults_quality:
  "r_quality request = Absent \<or> r_quality request = Val ''highest'' \<Longrightarrow>
   p_quality (setDefaults request u) = Some ''highest''"
  by (auto simp: setDefaults_def string_or_def)

text \<open>
  Claim C1 fails on the code. The handler of \<open>/extract\<close> passes every parameter as a
  property of the request, \<open>undefined\<close> when the query leaves it out, and the spread
  copies that \<open>undefined\<close> over the default: for a query that gives the url alone the
  parameters dispatched have no format, no quality and no type, where the claim has
  \<open>mp4\<close>, \<open>highest\<close> and \<open>video\<close>.
\<close>

theorem extract_query_defaults_lost:
  assumes "q_url query = Some u" and "q_format query = None" and "q_quality query = None"
    and "q_type query = None"
  shows "setDefaults (requestOfQuery query) u =
           \<lparr> p_url = u, p_format = None, p_quality = None,
             p_download = Some (q_download query = Some ''true''),
             p_info = Some (q_info query = Some ''true''), p_type = None \<rparr>"
  using assms by (simp add: setDefaults_def requestOfQuery_def)

text \<open>
  For the query \<open>?url=https://youtu.be/XXXXXXXXXXX\<close> the handler returns the five
  records of the extractor as they came, the audio and the webm record among them,
  unranked; \<open>extractVideo\<close> called with \<open>{ url }\<close> alone returns the three mp4 video
  records, ranked.
\<close>

theorem extract_query_defaults_lost_witness:
  "setDefaults (requestOfQuery (queryFor youtubeUrl)) youtubeUrl =
     \<lparr> p_url = youtubeUrl, p_format = None, p_quality = None, p_download = Some False,
       p_info = Some False, p_type = None \<rparr>
   \<and> extractHandler (exampleModule YouTube scenarioA) (queryFor youtubeUrl)
       = Inr (metadataOf scenarioA)
   \<and> extractVideo (exampleModule YouTube scenarioA) (requestFor youtubeUrl)
       = Inr (metadataOf
           [labelled ''1080p60'' ''mp4'' Video 0 ''https://v.example/1080'',
            labelled ''360p'' ''mp4'' Video 0 ''https://v.example/360'',
            labelled ''360p'' ''mp4'' Video 0 ''https://v.example/360b''])"
proof -
  have "extractHandler (exampleModule YouTube scenarioA) (queryFor youtubeUrl)
          = Inr (metadataOf scenarioA)"
    by code_simp
  moreover have "extractVideo (exampleModule YouTube scenarioA) (requestFor youtubeUrl)
       = Inr (metadataOf
           [labelled ''1080p60'' ''mp4'' Video 0 ''https://v.example/1080'',
            labelled ''360p'' ''mp4'' Video 0 ''https://v.example/360'',
            labelled ''360p'' ''mp4'' Video 0 ''https://v.example/360b''])"
    by code_simp
  ultimately show ?thesis
    using extract_query_defaults_lost [of "queryFor youtubeUrl" youtubeUrl]
    by (simp add: queryFor_def)
qed

section \<open>Info only\<close>

lemma filterFormat_info [simp]: "filterFormat (params\<lparr>p_info := i\<rparr>) = filterFormat params"
  by (auto simp: filterFormat_def Let_def fun_eq_iff)

lemma filterQuality_info [simp]:
  "filterQuality (params\<lparr>p_info := i\<rparr>) = filterQuality params"
  by (auto simp: filterQuality_def Let_def fun_eq_iff)

lemma sortHighest_info [simp]:
  "sortHighest cmp (params\<lparr>p_info := i\<rparr>) = sortHighest cmp params"
  by (auto simp: sortHighest_def fun_eq_iff)

lemma extractPlatform_info [simp]:
  "extractPlatform P (params\<lparr>p_info := i\<rparr>) = extractPlatform P params"
  by (cases "detectPlatform P (p_url params)") (simp_all add: extractPlatform_def)

lemma filterType_info [simp]: "filterType (params\<lparr>p_info := i\<rparr>) = filterType params"
  by (simp add: filterType_def fun_eq_iff)

lemma setDownloadUrl_info [simp]:
  "setDownloadUrl (params\<lparr>p_info := i\<rparr>) = setDownloadUrl params"
  by (simp add: setDownloadUrl_def fun_eq_iff)

lemma try_info:
  "extractVideo_try P (params\<lparr>p_info := Some True\<rparr>) =
     andThen (extractVideo_try P (params\<lparr>p_info := Some False\<rparr>))
       (\<lambda>r. Inr (r\<lparr>formats := [], downloadUrl := None\<rparr>))"
  by (simp add: extractVideo_try_def andThen_assoc infoOnly_def)

lemma setDefaults_info:
  "setDefaults (request\<lparr>r_info := Val b\<rparr>) u = (setDefaults request u)\<lparr>p_info := Some b\<rparr>"
  by (simp add: setDefaults_def)

text \<open>
  Claim C2. A request with \<open>info\<close> set to true that succeeds returns no formats and no
  \<open>downloadUrl\<close>; it succeeds only where the same request without \<open>info\<close> succeeds, with
  a list of formats that is not empty and whose records all have a url, and its result
  is that result with the formats cleared and \<open>downloadUrl\<close> removed; where the request
  without \<open>info\<close> fails, the request with \<open>info\<close> fails with the same message.
\<close>

theorem info_only_after_validation:
  assumes "r_info request = Val True"
  shows "(extractVideo P request = Inr m \<longrightarrow>
            formats m = [] \<and> downloadUrl m = None
            \<and> (\<exists>m'. extractVideo P (request\<lparr>r_info := Val False\<rparr>) = Inr m'
                  \<and> formats m' \<noteq> [] \<and> (\<forall>f \<in> set (formats m'). url f \<noteq> [])
                  \<and> m = m'\<lparr>formats := [], downloadUrl := None\<rparr>))
       \<and> (extractVideo P (request\<lparr>r_info := Val False\<rparr>) = Inl e \<longrightarrow>
            extractVideo P request = Inl e)"
proof -
  let ?u = "or_empty (r_url request)"
  let ?p = "setDefaults request ?u"
  have req: "request = request\<lparr>r_info := Val True\<rparr>"
    using assms by simp
  have on: "setDefaults request ?u = ?p\<lparr>p_info := Some True\<rparr>"
    using setDefaults_info [where request = request and b = True and u = ?u] req by simp
  have off: "setDefaults (request\<lparr>r_info := Val False\<rparr>) ?u = ?p\<lparr>p_info := Some False\<rparr>"
    by (rule setDefaults_info)
  have t: "extractVideo_try P ?p =
     andThen (extractVideo_try P (?p\<lparr>p_info := Some False\<rparr>))
       (\<lambda>r. Inr (r\<lparr>formats := [], downloadUrl := None\<rparr>))"
    using try_info [of P ?p] on by simp
  show ?thesis
  proof (intro conjI impI)
    assume "extractVideo P request = Inr m"
    then have a: "truthy (r_url request)" and b: "extractVideo_try P ?p = Inr m"
      by (simp_all add: extractVideo_Inr)
    from b t obtain m' where m': "extractVideo_try P (?p\<lparr>p_info := Some False\<rparr>) = Inr m'"
      and m: "m = m'\<lparr>formats := [], downloadUrl := None\<rparr>"
      by (auto simp: andThen_Inr)
    from m show "formats m = []" and "downloadUrl m = None"
      by simp_all
    have "extractVideo P (request\<lparr>r_info := Val False\<rparr>) = Inr m'"
      using a m' off by (simp add: extractVideo_Inr)
    moreover have "formats m' \<noteq> [] \<and> (\<forall>f \<in> set (formats m'). url f \<noteq> [])"
      using try_formats [OF m'] by simp
    ultimately show "\<exists>m'. extractVideo P (request\<lparr>r_info := Val False\<rparr>) = Inr m'
                  \<and> formats m' \<noteq> [] \<and> (\<forall>f \<in> set (formats m'). url f \<noteq> [])
                  \<and> m = m'\<lparr>formats := [], downloadUrl := None\<rparr>"
      using m by blast
  next
    assume f: "extractVideo P (request\<lparr>r_info := Val False\<rparr>) = Inl e"
    show "extractVideo P request = Inl e"
    proof (cases "truthy (r_url request)")
      case False
      with f show ?thesis by (simp add: extractVideo_def)
    next
      case True
      with f off obtain inner where
        "extractVideo_try P (?p\<lparr>p_info := Some False\<rparr>) = Inl inner"
        and "e = ''Error extracting video: '' @ inner"
        by (auto simp: extractVideo_def rethrow_Inl)
      with t True show ?thesis
        by (simp add: extractVideo_def)
    qed
  qed
qed

theorem info_only_after_validation_witness:
  "extractVideo (exampleModule YouTube scenarioA)
      ((requestFor youtubeUrl)\<lparr>r_download := Val True, r_info := Val True\<rparr>)
     = Inr (metadataOf [])
   \<and> extractVideo (exampleModule YouTube [labelled ''720p'' ''mp4'' Video 0 []])
      ((requestFor youtubeUrl)\<lparr>r_info := Val True\<rparr>)
     = Inl ''Error extracting video: No valid formats found with URLs''"
proof -
  let ?on = "(requestFor youtubeUrl)\<lparr>r_download := Val True, r_info := Val True\<rparr>"
  let ?m = "(metadataOf
           [labelled ''1080p60'' ''mp4'' Video 0 ''https://v.example/1080'',
            labelled ''360p'' ''mp4'' Video 0 ''https://v.example/360'',
            labelled ''360p'' ''mp4'' Video 0 ''https://v.example/360b''])
           \<lparr>downloadUrl := Some ''https://v.example/1080''\<rparr>"
  have on: "extractVideo (exampleModule YouTube scenarioA) ?on = Inr (metadataOf [])"
    by code_simp
  have off: "extractVideo (exampleModule YouTube [labelled ''720p'' ''mp4'' Video 0 []])
      ((requestFor youtubeUrl)\<lparr>r_info := Val True\<rparr>\<lparr>r_info := Val False\<rparr>)
     = Inl ''Error extracting video: No valid formats found with URLs''"
    by code_simp
  have i: "r_info ((requestFor youtubeUrl)\<lparr>r_info := Val True\<rparr>) = Val True"
    by simp
  from info_only_after_validation [OF i] off
  have "extractVideo (exampleModule YouTube [labelled ''720p'' ''mp4'' Video 0 []])
      ((requestFor youtubeUrl)\<lparr>r_info := Val True\<rparr>)
     = Inl ''Error extracting video: No valid formats found with URLs''"
    by blast
  with on show ?thesis by simp
qed

section \<open>Ranking\<close>

text \<open>
  Claim C6, as amended. For a YouTube request whose quality is \<open>highest\<close>, given or by
  default, the formats returned are in descending order of \<open>getQualityNumber\<close> of their
  quality label: the number that the first run of digits followed by \<open>p\<close> writes, \<open>0\<close>
  when the label has no such run. Records with the same number keep the order in which
  the extractor found them, and none has a greater number than the first.
\<close>

theorem youtube_highest_ranking:
  assumes "detectPlatform P u = YouTube" and "r_url request = Some u" and "u \<noteq> []"
    and "r_quality request = Absent \<or> r_quality request = Val ''highest''"
    and "extractVideo P request = Inr m"
  shows "sorted_wrt (\<lambda>a b. getQualityNumber (quality b) \<le> getQualityNumber (quality a))
           (formats m)
     \<and> (\<exists>m0. youtubeExtract P u (p_format (setDefaults request u)) (Some ''highest'') = Inr m0
            \<and> (\<forall>k. subseq (filter (\<lambda>f. getQualityNumber (quality f) = k) (formats m))
                      (formats m0)))
     \<and> (\<forall>f \<in> set (formats m).
           getQualityNumber (quality f) \<le> getQualityNumber (quality (hd (formats m))))"
proof -
  let ?params = "setDefaults request u"
  have q: "p_quality ?params = Some ''highest''"
    using assms(4) by (rule setDefaults_quality)
  have pu: "p_url ?params = u"
    by (simp add: setDefaults_def)
  have t: "extractVideo_try P ?params = Inr m"
    using assms(2,5) by (simp add: extractVideo_Inr)
  then obtain r0 Q where r0: "extractPlatform P ?params = Inr r0"
    and m: "formats m = (if p_info ?params = Some True then [] else filter Q (formats r0))"
    using try_Inr by blast
  from platform_youtube_highest [of P ?params r0] assms(1) q r0 pu
  obtain m0 R where m0: "youtubeExtract P u (p_format ?params) (Some ''highest'') = Inr m0"
    and s: "formats r0 = js_sort byResolution (filter R (formats m0))"
    by auto
  have s': "formats r0 = sort_key resolutionKey (filter R (formats m0))"
    using s js_sort_key [of byResolution resolutionKey] by (simp add: byResolution_key)
  have srt: "sorted (map resolutionKey (formats m))"
    using m s' by (simp add: sorted_filter)
  then have 1: "sorted_wrt (\<lambda>a b. getQualityNumber (quality b) \<le> getQualityNumber (quality a))
           (formats m)"
    by (simp add: sorted_map resolutionKey_def)
  have 2: "subseq (filter (\<lambda>f. getQualityNumber (quality f) = k) (formats m)) (formats m0)" for k
  proof -
    have "(\<lambda>f. getQualityNumber (quality f) = k) = (\<lambda>f. resolutionKey f = - k)"
      by (auto simp: resolutionKey_def)
    then show ?thesis
      using m s' stable_around_sort [of resolutionKey "- k" Q R "formats m0"] by simp
  qed
  have 3: "getQualityNumber (quality f) \<le> getQualityNumber (quality (hd (formats m)))"
    if "f \<in> set (formats m)" for f
    using sorted_wrt_hd [OF 1 _ that] by simp
  from 1 2 3 m0 show ?thesis by blast
qed

theorem youtube_highest_ranking_witness:
  "extractVideo (exampleModule YouTube scenarioA) (requestFor youtubeUrl)
     = Inr (metadataOf
         [labelled ''1080p60'' ''mp4'' Video 0 ''https://v.example/1080'',
          labelled ''360p'' ''mp4'' Video 0 ''https://v.example/360'',
          labelled ''360p'' ''mp4'' Video 0 ''https://v.example/360b''])
   \<and> sorted_wrt (\<lambda>a b. getQualityNumber (quality b) \<le> getQualityNumber (quality a))
        [labelled ''1080p60'' ''mp4'' Video 0 ''https://v.example/1080'',
         labelled ''360p'' ''mp4'' Video 0 ''https://v.example/360'',
         labelled ''360p'' ''mp4'' Video 0 ''https://v.example/360b'']"
proof -
  have e: "extractVideo (exampleModule YouTube scenarioA) (requestFor youtubeUrl)
     = Inr (metadataOf
         [labelled ''1080p60'' ''mp4'' Video 0 ''https://v.example/1080'',
          labelled ''360p'' ''mp4'' Video 0 ''https://v.example/360'',
          labelled ''360p'' ''mp4'' Video 0 ''https://v.example/360b''])"
    by code_simp
  have h: "detectPlatform (exampleModule YouTube scenarioA) youtubeUrl = YouTube"
    "r_url (requestFor youtubeUrl) = Some youtubeUrl" "youtubeUrl \<noteq> []"
    "r_quality (requestFor youtubeUrl) = Absent
       \<or> r_quality (requestFor youtubeUrl) = Val ''highest''"
    by (simp_all add: exampleModule_def requestFor_def youtubeUrl_def)
  from youtube_highest_ranking [OF h e] e show ?thesis
    by (simp add: metadataOf_def)
qed

text \<open>
  Claim C6 as it is written fails for a label that starts with digits no \<open>p\<close> follows:
  \<open>720\<close> counts as \<open>0\<close> and is ranked after \<open>480p\<close>, against the leading integers.
\<close>

theorem youtube_leading_integer_counterexample:
  "map quality
     (case extractVideo (exampleModule YouTube unmarked)
             ((requestFor youtubeUrl)\<lparr>r_quality := Val ''highest''\<rparr>) of
        Inr m \<Rightarrow> formats m | Inl e \<Rightarrow> [])
     = [''480p'', ''720'']
   \<and> \<not> sorted_wrt (\<lambda>a b. leadingInteger (quality b) \<le> leadingInteger (quality a))
        (case extractVideo (exampleModule YouTube unmarked)
                ((requestFor youtubeUrl)\<lparr>r_quality := Val ''highest''\<rparr>) of
           Inr m \<Rightarrow> formats m | Inl e \<Rightarrow> [])"
  by code_simp

text \<open>
  Claim C7. For a TikTok request whose quality is \<open>highest\<close>, given or by default, the
  formats returned are ordered by \<open>ranksBefore\<close>: every record whose label contains
  \<open>no watermark\<close> stands before every record whose label does not, whatever their
  sizes, and records alike in the marker stand in descending order of size, an unknown
  size counting as \<open>0\<close>, so that among sizes that are not negative it comes last.
\<close>

theorem tiktok_highest_ranking:
  assumes "detectPlatform P u = TikTok" and "r_url request = Some u" and "u \<noteq> []"
    and "r_quality request = Absent \<or> r_quality request = Val ''highest''"
    and "extractVideo P request = Inr m"
  shows "sorted_wrt ranksBefore (formats m)"
proof -
  let ?params = "setDefaults request u"
  have q: "p_quality ?params = Some ''highest''"
    using assms(4) by (rule setDefaults_quality)
  have pu: "p_url ?params = u"
    by (simp add: setDefaults_def)
  have t: "extractVideo_try P ?params = Inr m"
    using assms(2,5) by (simp add: extractVideo_Inr)
  then obtain r0 Q where r0: "extractPlatform P ?params = Inr r0"
    and m: "formats m = (if p_info ?params = Some True then [] else filter Q (formats r0))"
    using try_Inr by blast
  from platform_tiktok_highest [of P ?params r0] assms(1) q r0 pu
  obtain m0 :: VideoMetadata and R
    where s: "formats r0 = js_sort byWatermarkThenSize (filter R (formats m0))"
    by auto
  have s': "formats r0 = sort_key watermarkKey (filter R (formats m0))"
    using s js_sort_key [of byWatermarkThenSize watermarkKey] by (simp add: byWatermark_key)
  have "sorted (map watermarkKey (formats m))"
    using m s' by (simp add: sorted_filter)
  then have "sorted_wrt (\<lambda>a b. watermarkKey a \<le> watermarkKey b) (formats m)"
    by (simp add: sorted_map)
  moreover have "ranksBefore a b" if "watermarkKey a \<le> watermarkKey b" for a b
    using that by (auto simp: watermarkKey_def ranksBefore_def less_eq_prod_def split: if_splits)
  ultimately show ?thesis
    by (rule sorted_wrt_mono_rel [rotated]) simp
qed

text \<open>The two records of the scenario: the one without watermark, of size 500000,
  comes first, before the one of size 900000.\<close>

theorem tiktok_highest_ranking_witness:
  "extractVideo (exampleModule TikTok scenarioB) ((requestFor tiktokUrl)\<lparr>r_format := Val ''mp4''\<rparr>)
     = Inr (metadataOf
         [labelled ''original (no watermark)'' ''mp4'' Video 500000 ''https://v.example/clean'',
          labelled ''original (watermark)'' ''mp4'' Video 900000 ''https://v.example/marked''])
   \<and> sorted_wrt ranksBefore
        [labelled ''original (no watermark)'' ''mp4'' Video 500000 ''https://v.example/clean'',
         labelled ''original (watermark)'' ''mp4'' Video 900000 ''https://v.example/marked'']"
proof -
  let ?r = "(requestFor tiktokUrl)\<lparr>r_format := Val ''mp4''\<rparr>"
  have e: "extractVideo (exampleModule TikTok scenarioB) ?r
     = Inr (metadataOf
         [labelled ''original (no watermark)'' ''mp4'' Video 500000 ''https://v.example/clean'',
          labelled ''original (watermark)'' ''mp4'' Video 900000 ''https://v.example/marked''])"
    by code_simp
  have h: "detectPlatform (exampleModule TikTok scenarioB) tiktokUrl = TikTok"
    "r_url ?r = Some tiktokUrl" "tiktokUrl \<noteq> []"
    "r_quality ?r = Absent \<or> r_quality ?r = Val ''highest''"
    by (simp_all add: exampleModule_def requestFor_def tiktokUrl_def)
  from tiktok_highest_ranking [OF h e] e show ?thesis
    by (simp add: metadataOf_def)
qed

section \<open>Failures\<close>

text \<open>
  Claim C9. \<open>extractVideo\<close> rejects a missing or empty url with the message
  \<open>URL is required\<close>, as it is. Every other failure is the failure of the \<open>try\<close> block
  with \<open>Error extracting video: \<close> put once before its message, and that message is the
  one of the platform extractor that failed or one of the messages that the stages of
  \<open>extractVideo\<close> raise.
\<close>

theorem extractVideo_failures:
  "(\<not> truthy (r_url request) \<longrightarrow> extractVideo P request = Inl ''URL is required'')
   \<and> (truthy (r_url request) \<and> extractVideo P request = Inl e \<longrightarrow>
        (\<exists>inner. e = ''Error extracting video: '' @ inner
           \<and> extractVideo_try P (setDefaults request (or_empty (r_url request))) = Inl inner
           \<and> (youtubeExtract P (or_empty (r_url request))
                  (p_format (setDefaults request (or_empty (r_url request))))
                  (p_quality (setDefaults request (or_empty (r_url request)))) = Inl inner
               \<or> tiktokExtract P (or_empty (r_url request)) = Inl inner
               \<or> inner \<in> stageMessages (setDefaults request (or_empty (r_url request)))
                           (supportedPlatforms P))))"
proof (intro conjI impI)
  assume "\<not> truthy (r_url request)"
  then show "extractVideo P request = Inl ''URL is required''"
    by (simp add: extractVideo_def)
next
  let ?p = "setDefaults request (or_empty (r_url request))"
  assume a: "truthy (r_url request) \<and> extractVideo P request = Inl e"
  then obtain inner where i: "extractVideo_try P ?p = Inl inner"
    and e: "e = ''Error extracting video: '' @ inner"
    by (auto simp: extractVideo_def rethrow_Inl)
  have "p_url ?p = or_empty (r_url request)"
    by (simp add: setDefaults_def)
  with try_Inl [OF i] i e
  show "\<exists>inner. e = ''Error extracting video: '' @ inner
           \<and> extractVideo_try P ?p = Inl inner
           \<and> (youtubeExtract P (or_empty (r_url request)) (p_format ?p) (p_quality ?p) = Inl inner
               \<or> tiktokExtract P (or_empty (r_url request)) = Inl inner
               \<or> inner \<in> stageMessages ?p (supportedPlatforms P))"
    by auto
qed

theorem extractVideo_failures_witness:
  "extractVideo (exampleModule Unknown []) ((requestFor [])\<lparr>r_url := None\<rparr>)
     = Inl ''URL is required''
   \<and> extractVideo (exampleModule Unknown []) (requestFor ''https://example.com/x'')
     = Inl ''Error extracting video: Unsupported platform. Currently supports: Youtube, Tiktok''"
proof -
  let ?P = "exampleModule Unknown []"
  have a: "\<not> truthy (r_url ((requestFor [])\<lparr>r_url := None\<rparr>))"
    by simp
  have b: "extractVideo ?P (requestFor ''https://example.com/x'')
     = Inl ''Error extracting video: Unsupported platform. Currently supports: Youtube, Tiktok''"
    by code_simp
  from extractVideo_failures [of "(requestFor [])\<lparr>r_url := None\<rparr>" ?P] a
  have "extractVideo ?P ((requestFor [])\<lparr>r_url := None\<rparr>) = Inl ''URL is required''"
    by blast
  with b show ?thesis by simp
qed

section \<open>The format normalizer of YouTube\<close>

lemma split_hd: "\<exists>ps. split [c] s = takeWhile (\<lambda>x. x \<noteq> c) s # ps"
  by (induction s) (auto simp: split.simps split: list.splits)

lemma getMimeType_Inr:
  "getMimeType x =
     Inr (mimeOfParts (case x of None \<Rightarrow> [[], []]
                       | Some s \<Rightarrow> split ''/'' (takeWhile (\<lambda>c. c \<noteq> CHR '';'') s)))"
proof (cases x)
  case None
  then show ?thesis by (simp add: getMimeType_def)
next
  case (Some s)
  obtain ps where "split '';'' s = takeWhile (\<lambda>c. c \<noteq> CHR '';'') s # ps"
    using split_hd [of "CHR '';''" s] by blast
  with Some show ?thesis by (simp add: getMimeType_def)
qed

lemma mimeOfParts_type:
  "(snd (mimeOfParts (split ''/'' p)) = Audio)
     = (takeWhile (\<lambda>c. c \<noteq> CHR ''/'') p = ''audio'')"
proof -
  obtain ps where "split ''/'' p = takeWhile (\<lambda>c. c \<noteq> CHR ''/'') p # ps"
    using split_hd [of "CHR ''/''" p] by blast
  then show ?thesis by (simp add: mimeOfParts_def)
qed

lemma pushFormat_Inr: "pushFormat f fs = Inr (fs @ pushed f)"
  by (simp add: pushFormat_def pushed_def getMimeType_Inr split: prod.splits)

lemma forEachPush_eq: "forEachPush ds fs = (fs @ concat (map pushed ds), None)"
  by (induction ds arbitrary: fs) (simp_all add: pushFormat_Inr)

lemma extractFormats_eq:
  "streamingData pr = Some sd \<Longrightarrow>
   extractFormatsFromPlayerResponse pr =
     js_sort byVideoResolution
       (concat (map pushed (or_nil (adaptiveFormats sd) @ or_nil (regularFormats sd))))"
  by (simp add: extractFormatsFromPlayerResponse_def forEachPush_eq)

lemma pushed_without_mimeType:
  assumes "s_mimeType f = None" "finalUrlOf f \<noteq> []"
  shows "\<exists>r. pushed f = [r] \<and> mimeType r = ''/'' \<and> format r = ''unknown'' \<and> type r = Video
            \<and> url r = finalUrlOf f \<and> quality r = string_or (s_qualityLabel f) (s_quality f)"
  using assms
  by (simp add: pushed_def pushFormat_def getMimeType_def mimeOfParts_def containerOf_def
      split.simps)

lemma pushed_url: "r \<in> set (pushed f) \<Longrightarrow> url r \<noteq> []"
  by (auto simp: pushed_def pushFormat_def getMimeType_Inr split: if_splits prod.splits)

lemma extractFormats_urls:
  "r \<in> set (extractFormatsFromPlayerResponse pr) \<Longrightarrow> url r \<noteq> []"
proof (cases "streamingData pr")
  case None
  assume "r \<in> set (extractFormatsFromPlayerResponse pr)"
  with None show ?thesis by (simp add: extractFormatsFromPlayerResponse_def)
next
  case (Some sd)
  assume "r \<in> set (extractFormatsFromPlayerResponse pr)"
  with Some show ?thesis
    by (auto simp: extractFormats_eq set_js_sort dest: pushed_url)
qed

text \<open>
  Claim C10. \<open>getMimeType\<close> returns for every input, \<open>undefined\<close> or a string: the type
  is \<open>audio\<close> exactly when the input is a string and what stands before its first \<open>/\<close>,
  once everything from the first \<open>;\<close> on is dropped, is \<open>audio\<close>, and \<open>video\<close> otherwise.
  So a stream without \<open>mimeType\<close> that has a url still gives a record, with mimeType
  \<open>/\<close>, format \<open>unknown\<close> and type \<open>video\<close>.
\<close>

theorem getMimeType_total:
  "(\<exists>mime t. getMimeType x = Inr (mime, t)
       \<and> (t = Audio \<longleftrightarrow>
            (\<exists>s. x = Some s
               \<and> takeWhile (\<lambda>c. c \<noteq> CHR ''/'') (takeWhile (\<lambda>c. c \<noteq> CHR '';'') s) = ''audio''))
       \<and> (t \<noteq> Audio \<longrightarrow> t = Video))
   \<and> (streamingData pr = Some sd
       \<and> (f \<in> set (or_nil (adaptiveFormats sd)) \<or> f \<in> set (or_nil (regularFormats sd)))
       \<and> s_mimeType f = None \<and> finalUrlOf f \<noteq> [] \<longrightarrow>
         (\<exists>r \<in> set (extractFormatsFromPlayerResponse pr).
            url r = finalUrlOf f \<and> mimeType r = ''/'' \<and> format r = ''unknown''
            \<and> type r = Video \<and> quality r = string_or (s_qualityLabel f) (s_quality f)))"
proof (intro conjI impI)
  let ?parts = "case x of None \<Rightarrow> [[], []]
                | Some s \<Rightarrow> split ''/'' (takeWhile (\<lambda>c. c \<noteq> CHR '';'') s)"
  have t: "(snd (mimeOfParts ?parts) = Audio)
      = (\<exists>s. x = Some s
            \<and> takeWhile (\<lambda>c. c \<noteq> CHR ''/'') (takeWhile (\<lambda>c. c \<noteq> CHR '';'') s) = ''audio'')"
  proof (cases x)
    case None
    then show ?thesis by (simp add: mimeOfParts_def)
  next
    case (Some s)
    then show ?thesis by (simp add: mimeOfParts_type)
  qed
  have "getMimeType x = Inr (fst (mimeOfParts ?parts), snd (mimeOfParts ?parts))"
    by (simp add: getMimeType_Inr)
  moreover have "snd (mimeOfParts ?parts) \<noteq> Audio \<longrightarrow> snd (mimeOfParts ?parts) = Video"
    by (cases "snd (mimeOfParts ?parts)") simp_all
  ultimately show "\<exists>mime t. getMimeType x = Inr (mime, t)
       \<and> (t = Audio \<longleftrightarrow>
            (\<exists>s. x = Some s
               \<and> takeWhile (\<lambda>c. c \<noteq> CHR ''/'') (takeWhile (\<lambda>c. c \<noteq> CHR '';'') s) = ''audio''))
       \<and> (t \<noteq> Audio \<longrightarrow> t = Video)"
    using t by blast
next
  assume a: "streamingData pr = Some sd
       \<and> (f \<in> set (or_nil (adaptiveFormats sd)) \<or> f \<in> set (or_nil (regularFormats sd)))
       \<and> s_mimeType f = None \<and> finalUrlOf f \<noteq> []"
  then obtain r where r: "pushed f = [r]" "mimeType r = ''/''" "format r = ''unknown''"
    "type r = Video" "url r = finalUrlOf f"
    "quality r = string_or (s_qualityLabel f) (s_quality f)"
    using pushed_without_mimeType [of f] by blast
  have "r \<in> set (extractFormatsFromPlayerResponse pr)"
    using a r(1) by (auto simp: extractFormats_eq set_js_sort intro!: bexI [of _ f])
  with r show "\<exists>r \<in> set (extractFormatsFromPlayerResponse pr).
            url r = finalUrlOf f \<and> mimeType r = ''/'' \<and> format r = ''unknown''
            \<and> type r = Video \<and> quality r = string_or (s_qualityLabel f) (s_quality f)"
    by blast
qed

theorem getMimeType_total_witness:
  "getMimeType (Some ''audio/webm; codecs=opus'') = Inr (''audio/webm'', Audio)
   \<and> getMimeType None = Inr (''/'', Video)
   \<and> extractFormatsFromPlayerResponse
        (playerWith [stream ''https://v.example/s'' ''360p'' None] [])
      = [\<lparr> quality = ''360p'', format = ''unknown'', mimeType = ''/'', type = Video,
            size_bytes = Num 1024, url = ''https://v.example/s'' \<rparr>]"
proof -
  let ?f = "stream ''https://v.example/s'' ''360p'' None"
  let ?sd = "\<lparr> adaptiveFormats = Some [?f], regularFormats = Some [] \<rparr>"
  have a: "getMimeType (Some ''audio/webm; codecs=opus'') = Inr (''audio/webm'', Audio)"
    by code_simp
  have b: "getMimeType None = Inr (''/'', Video)"
    by code_simp
  have c: "extractFormatsFromPlayerResponse (playerWith [?f] [])
      = [\<lparr> quality = ''360p'', format = ''unknown'', mimeType = ''/'', type = Video,
            size_bytes = Num 1024, url = ''https://v.example/s'' \<rparr>]"
    by code_simp
  have h: "streamingData (playerWith [?f] []) = Some ?sd
       \<and> (?f \<in> set (or_nil (adaptiveFormats ?sd)) \<or> ?f \<in> set (or_nil (regularFormats ?sd)))
       \<and> s_mimeType ?f = None \<and> finalUrlOf ?f \<noteq> []"
    by (simp add: playerWith_def stream_def finalUrlOf_def)
  from getMimeType_total [of None "playerWith [?f] []" ?sd ?f] h
  have "\<exists>r \<in> set (extractFormatsFromPlayerResponse (playerWith [?f] [])). mimeType r = ''/''"
    by blast
  with a b c show ?thesis by simp
qed

text \<open>
  Claim C5 as it is written fails for YouTube: \<open>extractFormatsFromPlayerResponse\<close> drops
  no repeated url, and two streams with one url give two records. Both records are
  video, so the comparator of the sort is consistent on them.
\<close>

theorem youtube_repeated_url_counterexample:
  "map url (extractFormatsFromPlayerResponse
      (playerWith [stream ''https://v.example/s'' ''720p'' (Some ''video/mp4; codecs=avc1''),
                   stream ''https://v.example/s'' ''360p'' (Some ''video/webm'')] []))
     = [''https://v.example/s'', ''https://v.example/s'']"
  by code_simp

section \<open>One record for each url\<close>

lemma findIndex_range:
  "findIndex P xs = - 1 \<or> (0 \<le> findIndex P xs \<and> findIndex P xs < int (length xs))"
  by (induction xs) auto

lemma findIndex_none: "(findIndex P xs = - 1) = (\<forall>t \<in> set xs. \<not> P t)"
proof (induction xs)
  case Nil
  then show ?case by simp
next
  case (Cons x xs)
  then show ?case
    using findIndex_range [of P xs] by auto
qed

lemma findIndex_append:
  "findIndex P (pre @ ys) =
     (if \<exists>t \<in> set pre. P t then findIndex P pre
      else if findIndex P ys = - 1 then - 1 else int (length pre) + findIndex P ys)"
proof (induction pre)
  case Nil
  then show ?case
    using findIndex_range [of P ys] by auto
next
  case (Cons p pre)
  then show ?case
    using findIndex_range [of P ys] findIndex_none [of P pre] findIndex_none [of P ys]
    by auto
qed

lemma first_at:
  "(int (length pre) = findIndex (\<lambda>t. url t = url x) (pre @ x # xs))
     = (url x \<notin> url ` set pre)"
proof (cases "\<exists>t \<in> set pre. url t = url x")
  case True
  then have "findIndex (\<lambda>t. url t = url x) (pre @ x # xs) = findIndex (\<lambda>t. url t = url x) pre"
    by (simp add: findIndex_append)
  moreover have "findIndex (\<lambda>t. url t = url x) pre < int (length pre)"
    using findIndex_range [of "\<lambda>t. url t = url x" pre] by auto
  moreover have "url x \<in> url ` set pre"
    using True by (metis imageI)
  ultimately show ?thesis by simp
next
  case False
  then have "findIndex (\<lambda>t. url t = url x) (pre @ x # xs) = int (length pre)"
    by (simp add: findIndex_append)
  moreover have "url x \<notin> url ` set pre"
    using False by (auto simp: image_iff)
  ultimately show ?thesis by simp
qed

lemma firstOfEachUrl_gen:
  "map snd (filter (\<lambda>(index, f). int index = findIndex (\<lambda>t. url t = url f) (pre @ xs))
              (enumerate (length pre) xs))
     = keepFirst (url ` set pre) xs"
proof (induction xs arbitrary: pre)
  case Nil
  then show ?case by simp
next
  case (Cons x xs)
  have "map snd (filter (\<lambda>(index, f). int index = findIndex (\<lambda>t. url t = url f) ((pre @ [x]) @ xs))
              (enumerate (length (pre @ [x])) xs))
     = keepFirst (url ` set (pre @ [x])) xs"
    by (rule Cons.IH)
  then have ih: "map snd (filter (\<lambda>(index, f). int index = findIndex (\<lambda>t. url t = url f) (pre @ x # xs))
              (enumerate (Suc (length pre)) xs))
     = keepFirst (insert (url x) (url ` set pre)) xs"
    by simp
  show ?case
  proof (cases "url x \<in> url ` set pre")
    case True
    have k: "keepFirst (insert (url x) (url ` set pre)) xs = keepFirst (url ` set pre) xs"
      using True by (simp add: insert_absorb)
    show ?thesis
      using True first_at [of pre x xs] ih k by simp
  next
    case False
    show ?thesis
      using False first_at [of pre x xs] ih by simp
  qed
qed

lemma firstOfEachUrl_eq: "firstOfEachUrl fs = keepFirst {} fs"
  using firstOfEachUrl_gen [of "[]" fs] by (simp add: firstOfEachUrl_def)

lemma keepFirst_urls: "url ` set (keepFirst seen xs) = url ` set xs - seen"
  by (induction xs arbitrary: seen) auto

lemma keepFirst_distinct: "distinct (map url (keepFirst seen xs))"
proof (induction xs arbitrary: seen)
  case Nil
  then show ?case by simp
next
  case (Cons x xs)
  have "url x \<notin> url ` set (keepFirst (insert (url x) seen) xs)"
    by (simp add: keepFirst_urls)
  with Cons show ?case by auto
qed

lemma keepFirst_find:
  "r \<in> set (keepFirst seen xs) \<Longrightarrow> find (\<lambda>t. url t = url r) xs = Some r"
proof (induction xs arbitrary: seen)
  case Nil
  then show ?case by simp
next
  case (Cons x xs)
  show ?case
  proof (cases "url x \<in> seen")
    case True
    with Cons.prems have r: "r \<in> set (keepFirst seen xs)" by simp
    then have "url r \<in> url ` set (keepFirst seen xs)" by blast
    then have "url r \<notin> seen" by (simp add: keepFirst_urls)
    with True have "url x \<noteq> url r" by auto
    with Cons.IH [OF r] show ?thesis by simp
  next
    case False
    with Cons.prems consider "r = x" | "r \<in> set (keepFirst (insert (url x) seen) xs)"
      by auto
    then show ?thesis
    proof cases
      case 1
      then show ?thesis by simp
    next
      case 2
      then have "url r \<in> url ` set (keepFirst (insert (url x) seen) xs)" by blast
      then have "url x \<noteq> url r" by (auto simp: keepFirst_urls)
      with Cons.IH [OF 2] show ?thesis by simp
    qed
  qed
qed

lemma find_filter_url:
  assumes "find (\<lambda>t. url t = url r) (filter (\<lambda>f. url f \<noteq> []) fs) = Some r"
  shows "find (\<lambda>t. url t = url r) fs = Some r"
proof -
  from assms have "r \<in> set (filter (\<lambda>f. url f \<noteq> []) fs)"
    by (metis find_Some_iff nth_mem)
  then have "url r \<noteq> []"
    by simp
  then have "find (\<lambda>t. url t = url r) (filter (\<lambda>f. url f \<noteq> []) fs)
               = find (\<lambda>t. url t = url r) fs"
    by (induction fs) auto
  with assms show ?thesis by simp
qed

lemma tidyFormats_set:
  "set (tidyFormats fs) = set (keepFirst {} (filter (\<lambda>f. url f \<noteq> []) fs))"
  by (simp add: tidyFormats_def set_js_sort firstOfEachUrl_eq)

lemma tidyFormats_distinct: "distinct (map url (tidyFormats fs))"
proof -
  have "mset (map url (tidyFormats fs))
          = mset (map url (keepFirst {} (filter (\<lambda>f. url f \<noteq> []) fs)))"
    by (simp add: tidyFormats_def mset_js_sort firstOfEachUrl_eq)
  then show ?thesis
    using keepFirst_distinct mset_eq_imp_distinct_iff by blast
qed

lemma gather_tidy:
  "(fetchTikTokInfo w u = Inr info) =
     (\<exists>page. bodyOrThrow (fetchPage w u) = Inr page
        \<and> info = \<lparr> title = extractTitle page (extractVideoData page),
                   description = extractDescription page (extractVideoData page),
                   duration = extractDurationTikTok page (extractVideoData page),
                   thumbnail = extractThumbnail page (extractVideoData page),
                   formats = tidyFormats (gatherFormats w u page),
                   downloadUrl = None \<rparr>)"
  by (auto simp: fetchTikTokInfo_def rethrow_Inr andThen_Inr)

text \<open>
  Claim C5, as amended. For TikTok, the formats that \<open>fetchTikTokInfo\<close> returns are
  \<open>tidyFormats\<close> of the records that the strategies gathered: their urls are distinct,
  they are the urls of the gathered records that are not empty, and each record
  returned is the first gathered record with its url, with all its fields. The
  normalizer of YouTube drops no repeated url.
\<close>

theorem tiktok_one_record_per_url:
  "distinct (map url (tidyFormats fs))
   \<and> set (map url (tidyFormats fs)) = {x \<in> url ` set fs. x \<noteq> []}
   \<and> (\<forall>r \<in> set (tidyFormats fs). find (\<lambda>t. url t = url r) fs = Some r)
   \<and> (fetchTikTokInfo w u = Inr info \<longrightarrow>
        (\<exists>page. bodyOrThrow (fetchPage w u) = Inr page
           \<and> formats info = tidyFormats (gatherFormats w u page)))"
proof (intro conjI ballI impI)
  show "distinct (map url (tidyFormats fs))"
    by (rule tidyFormats_distinct)
  show "set (map url (tidyFormats fs)) = {x \<in> url ` set fs. x \<noteq> []}"
    by (auto simp: tidyFormats_set keepFirst_urls)
next
  fix r
  assume "r \<in> set (tidyFormats fs)"
  then have "r \<in> set (keepFirst {} (filter (\<lambda>f. url f \<noteq> []) fs))"
    by (simp add: tidyFormats_set)
  then have "find (\<lambda>t. url t = url r) (filter (\<lambda>f. url f \<noteq> []) fs) = Some r"
    by (rule keepFirst_find)
  then show "find (\<lambda>t. url t = url r) fs = Some r"
    by (rule find_filter_url)
next
  assume "fetchTikTokInfo w u = Inr info"
  then show "\<exists>page. bodyOrThrow (fetchPage w u) = Inr page
           \<and> formats info = tidyFormats (gatherFormats w u page)"
    by (auto simp: gather_tidy)
qed

section \<open>Failures of a fetch in the chain of TikTok\<close>

lemma bodyOrThrow_failed:
  "fetchFailed r \<Longrightarrow>
   bodyOrThrow r =
     Inl (case r of Rejected m \<Rightarrow> m
          | Response status b \<Rightarrow> ''HTTP error! status: '' @ show_nat status)"
  by (cases r) (simp_all add: fetchFailed_def bodyOrThrow_def)

lemma extractFromEmbed_failed: "fetchFailed (fetchEmbed w e) \<Longrightarrow> extractFromEmbed w e = []"
  by (cases "fetchEmbed w e") (simp_all add: fetchFailed_def extractFromEmbed_def)

lemma extractFromApi_failed: "fetchFailed (fetchApi w (apiUrl u)) \<Longrightarrow> extractFromApi w u = []"
  by (cases "fetchApi w (apiUrl u)") (simp_all add: fetchFailed_def extractFromApi_def apiUrl_def)

lemma fetchTikTokInfo_failed:
  "fetchFailed (fetchPage w u) \<Longrightarrow>
   fetchTikTokInfo w u =
     Inl (''Failed to fetch TikTok info: '' @
          (case fetchPage w u of Rejected m \<Rightarrow> m
           | Response status b \<Rightarrow> ''HTTP error! status: '' @ show_nat status))"
  by (simp add: fetchTikTokInfo_def bodyOrThrow_failed)

lemma fetchTikTokInfo_ok:
  "fetchPage w u = Response status (Body page) \<Longrightarrow> ok status \<Longrightarrow>
   \<exists>info. fetchTikTokInfo w u = Inr info \<and> formats info = tidyFormats (gatherFormats w u page)"
  by (simp add: fetchTikTokInfo_def bodyOrThrow_def)

lemma tidyFormats_Nil: "tidyFormats [] = []"
  by (simp add: tidyFormats_def firstOfEachUrl_def js_sort_def)

lemma extractVideo_tiktok_Inl:
  assumes "detectPlatform P u0 = TikTok" "tiktokExtract P u0 = Inl e" "r_url request = Some u0"
    "u0 \<noteq> []"
  shows "extractVideo P request = Inl (''Error extracting video: '' @ e)"
proof -
  have "p_url (setDefaults request u0) = u0"
    by (simp add: setDefaults_def)
  then have "extractPlatform P (setDefaults request u0) = Inl e"
    using assms(1,2) by (simp add: extractPlatform_def)
  then show ?thesis
    using assms(3,4) by (simp add: extractVideo_def extractVideo_try_def)
qed

text \<open>
  Claim C3, as amended. In the chain of TikTok a fetch of the main page that fails, by
  a rejected promise or a status that is not 2xx, is fatal to the whole request, though
  it is the first of the chain: \<open>extractVideo\<close> fails with the message of that
  failure. A failure of the fetch of the embed page or of the API is swallowed: the
  strategy yields no format and raises nothing. Where the page gave no format and the
  embed fetch fails, the chain continues with the API; where no strategy gives a
  format and the fetch of the API, the last one, fails, the extraction fails with
  \<open>No video formats found\<close>, not with the failure of the fetch.
\<close>

theorem fetch_failures:
  assumes "sanitizeTikTokUrl w u0 = Inr u"
    and "detect u0 = TikTok" and "r_url request = Some u0" and "u0 \<noteq> []"
  shows
    "(fetchFailed (fetchPage w u) \<longrightarrow>
        extractVideo (platformModule w detect names) request =
          Inl (''Error extracting video: Failed to extract TikTok video: ''
               @ ''Failed to fetch TikTok info: ''
               @ (case fetchPage w u of Rejected m \<Rightarrow> m
                  | Response status b \<Rightarrow> ''HTTP error! status: '' @ show_nat status)))
     \<and> (fetchFailed (fetchEmbed w e) \<longrightarrow> extractFromEmbed w e = [])
     \<and> (fetchFailed (fetchApi w (apiUrl u)) \<longrightarrow> extractFromApi w u = [])
     \<and> (fetchPage w u = Response status (Body page) \<and> ok status \<longrightarrow>
          (\<exists>info. fetchTikTokInfo w u = Inr info
              \<and> formats info = tidyFormats (gatherFormats w u page))
          \<and> (extractFormats page (extractVideoData page) = [] \<and> getEmbedUrl u = Some e
               \<and> fetchFailed (fetchEmbed w e) \<longrightarrow>
                 gatherFormats w u page = extractFromApi w u)
          \<and> (extractFormats page (extractVideoData page) = []
               \<and> (getEmbedUrl u = None \<or> getEmbedUrl u = Some e \<and> extractFromEmbed w e = [])
               \<and> fetchFailed (fetchApi w (apiUrl u)) \<longrightarrow>
                 extractTikTokVideo w u0 =
                   Inl ''Failed to extract TikTok video: No video formats found''))"
proof (intro conjI impI)
  assume f: "fetchFailed (fetchPage w u)"
  let ?msg = "case fetchPage w u of Rejected m \<Rightarrow> m
              | Response status b \<Rightarrow> ''HTTP error! status: '' @ show_nat status"
  have "extractTikTokVideo w u0 =
          Inl (''Failed to extract TikTok video: '' @ ''Failed to fetch TikTok info: '' @ ?msg)"
    using assms(1) fetchTikTokInfo_failed [OF f] by (simp add: extractTikTokVideo_def)
  then have "tiktokExtract (platformModule w detect names) u0 =
          Inl (''Failed to extract TikTok video: '' @ ''Failed to fetch TikTok info: '' @ ?msg)"
    by (simp add: platformModule_def)
  moreover have "detectPlatform (platformModule w detect names) u0 = TikTok"
    using assms(2) by (simp add: platformModule_def)
  ultimately show "extractVideo (platformModule w detect names) request =
          Inl (''Error extracting video: Failed to extract TikTok video: ''
               @ ''Failed to fetch TikTok info: '' @ ?msg)"
    using extractVideo_tiktok_Inl [OF _ _ assms(3,4)] by fastforce
next
  assume "fetchFailed (fetchEmbed w e)"
  then show "extractFromEmbed w e = []"
    by (rule extractFromEmbed_failed)
next
  assume "fetchFailed (fetchApi w (apiUrl u))"
  then show "extractFromApi w u = []"
    by (rule extractFromApi_failed)
next
  assume "fetchPage w u = Response status (Body page) \<and> ok status"
  then show "\<exists>info. fetchTikTokInfo w u = Inr info
              \<and> formats info = tidyFormats (gatherFormats w u page)"
    using fetchTikTokInfo_ok by blast
next
  assume "extractFormats page (extractVideoData page) = [] \<and> getEmbedUrl u = Some e
               \<and> fetchFailed (fetchEmbed w e)"
  then show "gatherFormats w u page = extractFromApi w u"
    by (simp add: gatherFormats_def extractFromEmbed_failed)
next
  assume p: "fetchPage w u = Response status (Body page) \<and> ok status"
  assume a: "extractFormats page (extractVideoData page) = []
               \<and> (getEmbedUrl u = None \<or> getEmbedUrl u = Some e \<and> extractFromEmbed w e = [])
               \<and> fetchFailed (fetchApi w (apiUrl u))"
  then have "gatherFormats w u page = []"
    by (auto simp: gatherFormats_def extractFromApi_failed)
  with p obtain info where "fetchTikTokInfo w u = Inr info" "formats info = []"
    using fetchTikTokInfo_ok [of w u status page] by (auto simp: tidyFormats_Nil)
  then show "extractTikTokVideo w u0 =
                   Inl ''Failed to extract TikTok video: No video formats found''"
    using assms(1) by (simp add: extractTikTokVideo_def)
qed

text \<open>
  Claim C3 as it is written fails where the main page answers 404: the request fails
  with that status, though the embed page and the API, later in the chain, would each
  have given formats.
\<close>

theorem main_page_failure_counterexample:
  "extractVideo (platformModule notFound (\<lambda>u. TikTok) ''Youtube, Tiktok'') (requestFor tiktokUrl)
     = Inl (''Error extracting video: Failed to extract TikTok video: ''
            @ ''Failed to fetch TikTok info: HTTP error! status: 404'')
   \<and> extractFromEmbed notFound ''https://www.tiktok.com/embed/v2/7000000000000000001''
     = [tiktokFormat ''original (embed)'' ''https://v.example/embedded'']
   \<and> extractFromApi notFound tiktokUrl
     = [tiktokFormat ''original (no watermark)'' ''https://v.example/clean'',
        tiktokFormat ''original (watermark)'' ''https://v.example/marked'']"
  by code_simp

theorem fetch_failures_witness:
  "extractVideo (platformModule notFound (\<lambda>u. TikTok) ''Youtube, Tiktok'') (requestFor tiktokUrl)
     = Inl (''Error extracting video: Failed to extract TikTok video: ''
            @ ''Failed to fetch TikTok info: HTTP error! status: 404'')
   \<and> extractTikTokVideo apiDown tiktokUrl
     = Inl ''Failed to extract TikTok video: No video formats found''"
proof -
  have s1: "sanitizeTikTokUrl notFound tiktokUrl = Inr tiktokUrl"
    by code_simp
  have s2: "sanitizeTikTokUrl apiDown tiktokUrl = Inr tiktokUrl"
    by code_simp
  have h: "(\<lambda>u. TikTok) tiktokUrl = TikTok" "r_url (requestFor tiktokUrl) = Some tiktokUrl"
    "tiktokUrl \<noteq> []"
    by (simp_all add: requestFor_def tiktokUrl_def)
  have f1: "fetchFailed (fetchPage notFound tiktokUrl)"
    by (simp add: notFound_def exampleWorld_def fetchFailed_def ok_def)
  have n: "show_nat 404 = ''404''"
    by code_simp
  have a: "extractVideo (platformModule notFound (\<lambda>u. TikTok) ''Youtube, Tiktok'')
             (requestFor tiktokUrl)
     = Inl (''Error extracting video: Failed to extract TikTok video: ''
            @ ''Failed to fetch TikTok info: HTTP error! status: 404'')"
    using fetch_failures [OF s1 h, of "''Youtube, Tiktok''"] f1 n
    by (simp add: notFound_def exampleWorld_def)
  have p: "fetchPage apiDown tiktokUrl = Response 200 (Body (pageWith [] None)) \<and> ok 200"
    by (simp add: apiDown_def exampleWorld_def ok_def)
  have g: "extractFormats (pageWith [] None) (extractVideoData (pageWith [] None)) = []
      \<and> (getEmbedUrl tiktokUrl = None
          \<or> getEmbedUrl tiktokUrl = Some ''https://www.tiktok.com/embed/v2/7000000000000000001''
            \<and> extractFromEmbed apiDown ''https://www.tiktok.com/embed/v2/7000000000000000001'' = [])
      \<and> fetchFailed (fetchApi apiDown (apiUrl tiktokUrl))"
  proof (intro conjI disjI2)
    show "extractFormats (pageWith [] None) (extractVideoData (pageWith [] None)) = []"
      by code_simp
    show "getEmbedUrl tiktokUrl = Some ''https://www.tiktok.com/embed/v2/7000000000000000001''"
      by code_simp
    show "extractFromEmbed apiDown ''https://www.tiktok.com/embed/v2/7000000000000000001'' = []"
      by code_simp
    show "fetchFailed (fetchApi apiDown (apiUrl tiktokUrl))"
      by (simp add: apiDown_def exampleWorld_def fetchFailed_def)
  qed
  have b: "extractTikTokVideo apiDown tiktokUrl
     = Inl ''Failed to extract TikTok video: No video formats found''"
    using fetch_failures [OF s2 h] p g by blast
  from a b show ?thesis by simp
qed

section \<open>Every record returned has a url\<close>

lemma media_cases: "t = Audio \<or> t = Video"
  by (cases t) simp_all

lemma fetchVideoInfo_urls:
  "fetchVideoInfo w v = Inr info \<Longrightarrow> r \<in> set (formats info) \<Longrightarrow> url r \<noteq> []"
  by (auto simp: fetchVideoInfo_def rethrow_Inr andThen_Inr Let_def split: if_splits
      dest: extractFormats_urls)

lemma tidyFormats_urls: "r \<in> set (tidyFormats fs) \<Longrightarrow> url r \<noteq> []"
proof -
  assume "r \<in> set (tidyFormats fs)"
  then have "url r \<in> set (map url (tidyFormats fs))"
    by simp
  also have "\<dots> = {x \<in> url ` set fs. x \<noteq> []}"
    by (auto simp: tidyFormats_set keepFirst_urls)
  finally show ?thesis by simp
qed

lemma fetchTikTokInfo_urls:
  "fetchTikTokInfo w u = Inr info \<Longrightarrow> r \<in> set (formats info) \<Longrightarrow> url r \<noteq> []"
  by (auto simp: gather_tidy dest: tidyFormats_urls)

lemma earlier_stages:
  "(extractYouTubeVideo w u a b = Inr m \<longrightarrow> (\<forall>f \<in> set (formats m). url f \<noteq> []))
   \<and> (extractTikTokVideo w u = Inr m \<longrightarrow> (\<forall>f \<in> set (formats m). url f \<noteq> []))
   \<and> (listAvailableFormats w u = Inr fs \<longrightarrow> (\<forall>f \<in> set fs. url f \<noteq> []))
   \<and> (getFormatsByType w u t = Inr fs \<longrightarrow> (\<forall>f \<in> set fs. url f \<noteq> []))
   \<and> (listTikTokFormats w u = Inr fs \<longrightarrow> (\<forall>f \<in> set fs. url f \<noteq> []))"
proof (intro conjI impI ballI)
  fix f
  assume "extractYouTubeVideo w u a b = Inr m" "f \<in> set (formats m)"
  then show "url f \<noteq> []"
    by (auto simp: extractYouTubeVideo_def rethrow_Inr andThen_Inr Let_def split: if_splits)
next
  fix f
  assume "extractTikTokVideo w u = Inr m" "f \<in> set (formats m)"
  then show "url f \<noteq> []"
    by (auto simp: extractTikTokVideo_def rethrow_Inr andThen_Inr split: if_splits
        dest: fetchTikTokInfo_urls)
next
  fix f
  assume "listAvailableFormats w u = Inr fs" "f \<in> set fs"
  then show "url f \<noteq> []"
    by (auto simp: listAvailableFormats_def rethrow_Inr andThen_Inr dest: fetchVideoInfo_urls)
next
  fix f
  assume "getFormatsByType w u t = Inr fs" "f \<in> set fs"
  then show "url f \<noteq> []"
    by (auto simp: getFormatsByType_def rethrow_Inr andThen_Inr dest: fetchVideoInfo_urls)
next
  fix f
  assume "listTikTokFormats w u = Inr fs" "f \<in> set fs"
  then show "url f \<noteq> []"
    by (auto simp: listTikTokFormats_def rethrow_Inr andThen_Inr dest: fetchTikTokInfo_urls)
qed

lemma formatsHandler_Inr:
  "formatsHandler P query = Inr (pl, fs) \<Longrightarrow> fs \<noteq> [] \<and> (\<forall>f \<in> set fs. url f \<noteq> [])"
  by (auto simp: formatsHandler_def rethrow_Inr andThen_Inr Let_def split: if_splits)

text \<open>
  Claim C8. Every record in the formats of a successful \<open>extractVideo\<close> and in the
  answer of \<open>/formats\<close> has a url that is not empty and a type that is \<open>audio\<close> or
  \<open>video\<close>. The filter at the end of \<open>extractVideo\<close> drops the records without url and
  fails with \<open>No valid formats found with URLs\<close> when none is left, so that a successful
  result has formats unless only the info was asked for; the answer of \<open>/formats\<close> is
  never empty. The extractors and the listings of both platforms already return
  records with urls only.
\<close>

theorem returned_formats_valid:
  "(extractVideo P request = Inr m \<longrightarrow>
      (\<forall>f \<in> set (formats m). url f \<noteq> [] \<and> (type f = Audio \<or> type f = Video))
      \<and> (formats m = [] \<longrightarrow>
            p_info (setDefaults request (or_empty (r_url request))) = Some True))
   \<and> (formatsHandler P query = Inr (pl, fs) \<longrightarrow>
        fs \<noteq> [] \<and> (\<forall>f \<in> set fs. url f \<noteq> [] \<and> (type f = Audio \<or> type f = Video)))
   \<and> removeWithoutUrls r =
        (if filter (\<lambda>f. url f \<noteq> []) (formats r) = []
         then Inl ''No valid formats found with URLs''
         else Inr (r\<lparr>formats := filter (\<lambda>f. url f \<noteq> []) (formats r)\<rparr>))
   \<and> (truthy (r_url request)
        \<and> andThen (extractPlatform P (setDefaults request (or_empty (r_url request))))
             (filterType (setDefaults request (or_empty (r_url request)))) = Inr r
        \<and> (\<forall>f \<in> set (formats r). url f = []) \<longrightarrow>
          extractVideo P request = Inl ''Error extracting video: No valid formats found with URLs'')
   \<and> (extractYouTubeVideo w u a b = Inr m' \<longrightarrow> (\<forall>f \<in> set (formats m'). url f \<noteq> []))
   \<and> (extractTikTokVideo w u = Inr m' \<longrightarrow> (\<forall>f \<in> set (formats m'). url f \<noteq> []))
   \<and> (listAvailableFormats w u = Inr fs' \<longrightarrow> (\<forall>f \<in> set fs'. url f \<noteq> []))
   \<and> (getFormatsByType w u t = Inr fs' \<longrightarrow> (\<forall>f \<in> set fs'. url f \<noteq> []))
   \<and> (listTikTokFormats w u = Inr fs' \<longrightarrow> (\<forall>f \<in> set fs'. url f \<noteq> []))"
proof -
  let ?p = "setDefaults request (or_empty (r_url request))"
  have 1: "(\<forall>f \<in> set (formats m). url f \<noteq> [] \<and> (type f = Audio \<or> type f = Video))
      \<and> (formats m = [] \<longrightarrow> p_info ?p = Some True)"
    if "extractVideo P request = Inr m"
  proof -
    from that have "extractVideo_try P ?p = Inr m"
      by (simp add: extractVideo_Inr)
    from try_Inr [OF this] show ?thesis
      by (auto simp: media_cases split: if_splits)
  qed
  have 2: "fs \<noteq> [] \<and> (\<forall>f \<in> set fs. url f \<noteq> [] \<and> (type f = Audio \<or> type f = Video))"
    if "formatsHandler P query = Inr (pl, fs)"
    using formatsHandler_Inr [OF that] by (simp add: media_cases)
  have 3: "removeWithoutUrls r =
        (if filter (\<lambda>f. url f \<noteq> []) (formats r) = []
         then Inl ''No valid formats found with URLs''
         else Inr (r\<lparr>formats := filter (\<lambda>f. url f \<noteq> []) (formats r)\<rparr>))"
    by (simp add: removeWithoutUrls_def)
  have 4: "extractVideo P request = Inl ''Error extracting video: No valid formats found with URLs''"
    if "truthy (r_url request) \<and> andThen (extractPlatform P ?p) (filterType ?p) = Inr r
        \<and> (\<forall>f \<in> set (formats r). url f = [])"
  proof -
    from that obtain r0 where "extractPlatform P ?p = Inr r0" "filterType ?p r0 = Inr r"
      by (auto simp: andThen_Inr)
    moreover from that have "filter (\<lambda>f. url f \<noteq> []) (formats r) = []"
      by (simp add: filter_empty_conv)
    ultimately have "extractVideo_try P ?p = Inl ''No valid formats found with URLs''"
      by (simp add: extractVideo_try_def removeWithoutUrls_def)
    with that show ?thesis
      by (simp add: extractVideo_def)
  qed
  from 1 2 3 4 earlier_stages [of w u a b m'] earlier_stages [of w u a b m' fs' t]
  show ?thesis by blast
qed

theorem returned_formats_valid_witness:
  "extractVideo (exampleModule YouTube mixedUrls) (requestFor youtubeUrl)
     = Inr (metadataOf [labelled ''360p'' ''mp4'' Video 0 ''https://v.example/360''])
   \<and> formatsHandler (exampleModule TikTok mixedUrls) (queryFor tiktokUrl)
     = Inr (TikTok, [labelled ''360p'' ''mp4'' Video 0 ''https://v.example/360''])
   \<and> extractVideo (exampleModule YouTube noUrls) (requestFor youtubeUrl)
     = Inl ''Error extracting video: No valid formats found with URLs''
   \<and> formatsHandler (exampleModule TikTok noUrls) (queryFor tiktokUrl)
     = Inl ''Failed to list formats: No valid formats found with URLs''"
proof -
  let ?P = "exampleModule YouTube noUrls"
  let ?p = "setDefaults (requestFor youtubeUrl) (or_empty (r_url (requestFor youtubeUrl)))"
  have a: "extractVideo (exampleModule YouTube mixedUrls) (requestFor youtubeUrl)
     = Inr (metadataOf [labelled ''360p'' ''mp4'' Video 0 ''https://v.example/360''])"
    by code_simp
  have b: "formatsHandler (exampleModule TikTok mixedUrls) (queryFor tiktokUrl)
     = Inr (TikTok, [labelled ''360p'' ''mp4'' Video 0 ''https://v.example/360''])"
    by code_simp
  have d: "formatsHandler (exampleModule TikTok noUrls) (queryFor tiktokUrl)
     = Inl ''Failed to list formats: No valid formats found with URLs''"
    by code_simp
  have h: "truthy (r_url (requestFor youtubeUrl))
        \<and> andThen (extractPlatform ?P ?p) (filterType ?p) = Inr (metadataOf noUrls)
        \<and> (\<forall>f \<in> set (formats (metadataOf noUrls)). url f = [])"
  proof (intro conjI)
    show "truthy (r_url (requestFor youtubeUrl))"
      by code_simp
    show "andThen (extractPlatform ?P ?p) (filterType ?p) = Inr (metadataOf noUrls)"
      by code_simp
    show "\<forall>f \<in> set (formats (metadataOf noUrls)). url f = []"
      by (simp add: metadataOf_def noUrls_def labelled_def)
  qed
  have c: "extractVideo ?P (requestFor youtubeUrl)
     = Inl ''Error extracting video: No valid formats found with URLs''"
    using returned_formats_valid [of ?P "requestFor youtubeUrl" _ _ _ _ "metadataOf noUrls"] h
    by blast
  from a b c d show ?thesis by simp
qed

theorem tiktok_one_record_per_url_witness:
  "tidyFormats
     [tiktokFormat ''original'' ''https://v.example/a'',
      tiktokFormat ''original'' [],
      tiktokFormat ''original (no watermark)'' ''https://v.example/b'',
      tiktokFormat ''original (no watermark)'' ''https://v.example/a'']
   = [tiktokFormat ''original (no watermark)'' ''https://v.example/b'',
      tiktokFormat ''original'' ''https://v.example/a'']
   \<and> distinct (map url (tidyFormats
     [tiktokFormat ''original'' ''https://v.example/a'',
      tiktokFormat ''original'' [],
      tiktokFormat ''original (no watermark)'' ''https://v.example/b'',
      tiktokFormat ''original (no watermark)'' ''https://v.example/a'']))"
proof -
  have "tidyFormats
     [tiktokFormat ''original'' ''https://v.example/a'',
      tiktokFormat ''original'' [],
      tiktokFormat ''original (no watermark)'' ''https://v.example/b'',
      tiktokFormat ''original (no watermark)'' ''https://v.example/a'']
   = [tiktokFormat ''original (no watermark)'' ''https://v.example/b'',
      tiktokFormat ''original'' ''https://v.example/a'']"
    by code_simp
  then show ?thesis
    using tiktok_one_record_per_url
      [of "[tiktokFormat ''original'' ''https://v.example/a'',
      tiktokFormat ''original'' [],
      tiktokFormat ''original (no watermark)'' ''https://v.example/b'',
      tiktokFormat ''original (no watermark)'' ''https://v.example/a'']"]
    by blast
qed

end
